theory Spec2Isabelle
  imports Complex_Main "HOL-Library.Char_ord" "HOL-Library.List_Lexorder"
begin

section \<open>Data model (convex/schema.ts)\<close>

text \<open>
  Document ids and names are strings, compared as character lists (the lexicographic
  order of \<open>List_Lexorder\<close> over \<open>Char_ord\<close>, which is how JavaScript's \<open>>=\<close> and
  \<open><=\<close> compare the ISO dates "YYYY-MM-DD" of the schema). A Convex \<open>v.number()\<close> is
  taken at its finite values and computed exactly, in type \<open>rat\<close>; a quotient with a
  zero divisor is no such value and is the fault \<open>NonFinite\<close> below. An optional field
  is an \<open>option\<close>, with \<open>None\<close> for \<open>undefined\<close>. A table is the list of its documents in
  creation order.
\<close>

type_synonym ident = string

datatype role = control_center | construction_manager

datatype status = active | completed | on_hold

record userProfile =
  up_userId :: ident
  up_name :: string
  up_role :: role

record projectAssignment =
  pa_userId :: ident
  pa_projectId :: ident

record scopeAssignment =
  sa_userId :: ident
  sa_scopeId :: ident
  sa_projectId :: ident

record project =
  pr_id :: ident
  pr_name :: string
  pr_status :: status

record scope =
  sc_id :: ident
  sc_projectId :: ident
  sc_name :: string

record activity =
  ac_id :: ident
  ac_scopeId :: ident
  ac_projectId :: ident
  ac_name :: string
  ac_unit :: string

record dailyEntry =
  entry_id :: nat
  activityId :: ident
  scopeId :: ident
  projectId :: ident
  date :: string
  userId :: ident
  foremanName :: "string option"
  forecastQuantity :: "rat option"
  forecastCrewSize :: "rat option"
  forecastHoursPerWorker :: "rat option"
  forecastHours :: "rat option"
  actualQuantity :: "rat option"
  actualCrewSize :: "rat option"
  actualHoursPerWorker :: "rat option"
  actualHours :: "rat option"
  entryNotes :: "string option"
  createdBy :: "ident option"
  createdAt :: "rat option"
  updatedBy :: "ident option"
  updatedAt :: "rat option"

text \<open>The store: one list per table, and the id the next inserted daily entry gets.\<close>

record db =
  userProfiles :: "userProfile list"
  projectAssignments :: "projectAssignment list"
  scopeAssignments :: "scopeAssignment list"
  projects :: "project list"
  scopes :: "scope list"
  activities :: "activity list"
  dailyEntries :: "dailyEntry list"
  nextEntryId :: nat

datatype error = NotAuthenticated | ActivityNotFound | AccessDenied | NonFinite

section \<open>JavaScript operators\<close>

text \<open>\<open>x ?? y\<close>, with \<open>y\<close> a value and with \<open>y\<close> possibly \<open>undefined\<close>.\<close>

definition nullish :: "'a option \<Rightarrow> 'a \<Rightarrow> 'a" where
  "nullish x y = (case x of None \<Rightarrow> y | Some v \<Rightarrow> v)"

definition nullish_opt :: "'a option \<Rightarrow> 'a option \<Rightarrow> 'a option" where
  "nullish_opt x y = (case x of None \<Rightarrow> y | Some v \<Rightarrow> Some v)"

text \<open>Truthiness of an optional number (\<open>undefined\<close> and \<open>0\<close> are falsy) and of an
  optional string (\<open>undefined\<close> and \<open>""\<close> are falsy).\<close>

definition truthy_num :: "rat option \<Rightarrow> bool" where
  "truthy_num x = (case x of None \<Rightarrow> False | Some v \<Rightarrow> v \<noteq> 0)"

definition truthy_str :: "string option \<Rightarrow> bool" where
  "truthy_str x = (case x of None \<Rightarrow> False | Some s \<Rightarrow> s \<noteq> [])"

text \<open>\<open>a / b\<close>: JavaScript gives NaN or an infinity for \<open>b = 0\<close>; the model reports it.\<close>

definition js_div :: "rat \<Rightarrow> rat \<Rightarrow> error + rat" where
  "js_div a b = (if b = 0 then Inl NonFinite else Inr (a / b))"

definition bind_err :: "error + 'a \<Rightarrow> ('a \<Rightarrow> error + 'b) \<Rightarrow> error + 'b" where
  "bind_err m f = (case m of Inl e \<Rightarrow> Inl e | Inr x \<Rightarrow> f x)"

fun foldl_err :: "('b \<Rightarrow> 'a \<Rightarrow> error + 'b) \<Rightarrow> 'b \<Rightarrow> 'a list \<Rightarrow> error + 'b" where
  "foldl_err f acc [] = Inr acc"
| "foldl_err f acc (x # xs) = bind_err (f acc x) (\<lambda>acc'. foldl_err f acc' xs)"

text \<open>\<open>Math.round\<close>: the nearest integer, a half rounded up.\<close>

definition Math_round :: "rat \<Rightarrow> rat" where
  "Math_round x = of_int \<lfloor>x + 1 / 2\<rfloor>"

section \<open>Store primitives\<close>

text \<open>
  \<open>.first()\<close> of an index query is \<open>find\<close> on the table; \<open>.collect()\<close> on an index
  \<open>by_X_and_date\<close> with only \<open>X\<close> fixed returns the matching documents by date, then by
  creation (a stable sort of the table's filter).
\<close>

definition first_by_activity_and_date :: "db \<Rightarrow> ident \<Rightarrow> string \<Rightarrow> dailyEntry option" where
  "first_by_activity_and_date d a dt =
     find (\<lambda>e. activityId e = a \<and> date e = dt) (dailyEntries d)"

definition collect_by_project :: "db \<Rightarrow> ident \<Rightarrow> dailyEntry list" where
  "collect_by_project d p = sort_key date (filter (\<lambda>e. projectId e = p) (dailyEntries d))"

definition collect_by_scope :: "db \<Rightarrow> ident \<Rightarrow> dailyEntry list" where
  "collect_by_scope d s = sort_key date (filter (\<lambda>e. scopeId e = s) (dailyEntries d))"

definition collect_by_activity :: "db \<Rightarrow> ident \<Rightarrow> dailyEntry list" where
  "collect_by_activity d a = sort_key date (filter (\<lambda>e. activityId e = a) (dailyEntries d))"

definition get_activity :: "db \<Rightarrow> ident \<Rightarrow> activity option" where
  "get_activity d i = find (\<lambda>a. ac_id a = i) (activities d)"

definition get_scope :: "db \<Rightarrow> ident \<Rightarrow> scope option" where
  "get_scope d i = find (\<lambda>s. sc_id s = i) (scopes d)"

definition first_profile :: "db \<Rightarrow> ident \<Rightarrow> userProfile option" where
  "first_profile d u = find (\<lambda>p. up_userId p = u) (userProfiles d)"

text \<open>
  \<open>ctx.db.patch(id, object)\<close> merges the object into the document: a key the object
  does not have leaves the field as it is, a key with a value overwrites it, and a key
  whose value is \<open>undefined\<close> removes the field (Convex: "fields set to undefined are
  removed").
\<close>

datatype 'a field_patch = Unmentioned | Assign "'a option"

fun patch_field :: "'a field_patch \<Rightarrow> 'a option \<Rightarrow> 'a option" where
  "patch_field Unmentioned old = old"
| "patch_field (Assign v) old = v"

record entryPatch =
  p_foremanName :: "string field_patch"
  p_forecastQuantity :: "rat field_patch"
  p_forecastCrewSize :: "rat field_patch"
  p_forecastHoursPerWorker :: "rat field_patch"
  p_forecastHours :: "rat field_patch"
  p_actualQuantity :: "rat field_patch"
  p_actualCrewSize :: "rat field_patch"
  p_actualHoursPerWorker :: "rat field_patch"
  p_actualHours :: "rat field_patch"
  p_notes :: "string field_patch"
  p_updatedBy :: "ident field_patch"
  p_updatedAt :: "rat field_patch"

definition apply_patch :: "entryPatch \<Rightarrow> dailyEntry \<Rightarrow> dailyEntry" where
  "apply_patch p e = e
     \<lparr> foremanName := patch_field (p_foremanName p) (foremanName e),
       forecastQuantity := patch_field (p_forecastQuantity p) (forecastQuantity e),
       forecastCrewSize := patch_field (p_forecastCrewSize p) (forecastCrewSize e),
       forecastHoursPerWorker :=
         patch_field (p_forecastHoursPerWorker p) (forecastHoursPerWorker e),
       forecastHours := patch_field (p_forecastHours p) (forecastHours e),
       actualQuantity := patch_field (p_actualQuantity p) (actualQuantity e),
       actualCrewSize := patch_field (p_actualCrewSize p) (actualCrewSize e),
       actualHoursPerWorker := patch_field (p_actualHoursPerWorker p) (actualHoursPerWorker e),
       actualHours := patch_field (p_actualHours p) (actualHours e),
       entryNotes := patch_field (p_notes p) (entryNotes e),
       updatedBy := patch_field (p_updatedBy p) (updatedBy e),
       updatedAt := patch_field (p_updatedAt p) (updatedAt e) \<rparr>"

definition db_patch :: "db \<Rightarrow> nat \<Rightarrow> entryPatch \<Rightarrow> db" where
  "db_patch d i p =
     d\<lparr> dailyEntries := map (\<lambda>e. if entry_id e = i then apply_patch p e else e) (dailyEntries d) \<rparr>"

text \<open>\<open>ctx.db.insert\<close> appends the document under a fresh id and returns the id.\<close>

definition db_insert :: "db \<Rightarrow> dailyEntry \<Rightarrow> nat \<times> db" where
  "db_insert d e =
     (nextEntryId d,
      d\<lparr> dailyEntries := dailyEntries d @ [e\<lparr> entry_id := nextEntryId d \<rparr>],
         nextEntryId := Suc (nextEntryId d) \<rparr>)"

section \<open>Access-control gate\<close>

text \<open>\<open>checkProjectAccess\<close>: the helper repeated in activities.ts, dailyEntries.ts,
  dashboard.ts and leaderboard.ts.\<close>

definition checkProjectAccess :: "db \<Rightarrow> ident \<Rightarrow> ident \<Rightarrow> bool" where
  "checkProjectAccess d uid pid =
     (case find (\<lambda>p. up_userId p = uid) (userProfiles d) of
        None \<Rightarrow> True
      | Some profile \<Rightarrow>
          if up_role profile = control_center then True
          else (case find (\<lambda>a. pa_userId a = uid \<and> pa_projectId a = pid)
                       (projectAssignments d) of
                  None \<Rightarrow> False
                | Some assignment \<Rightarrow> True))"

text \<open>\<open>isControlCenter\<close> (dashboard.ts): \<open>profile?.role === "control_center"\<close>.\<close>

definition isControlCenter :: "db \<Rightarrow> ident \<Rightarrow> bool" where
  "isControlCenter d uid =
     (case find (\<lambda>p. up_userId p = uid) (userProfiles d) of
        None \<Rightarrow> False
      | Some profile \<Rightarrow> up_role profile = control_center)"

section \<open>Entry recorder (convex/dailyEntries.ts)\<close>

definition getUserForemanName :: "db \<Rightarrow> ident \<Rightarrow> string option" where
  "getUserForemanName d uid =
     (case find (\<lambda>p. up_userId p = uid) (userProfiles d) of
        None \<Rightarrow> None
      | Some profile \<Rightarrow> Some (up_name profile))"

definition getAssignedCMName :: "db \<Rightarrow> ident \<Rightarrow> string option" where
  "getAssignedCMName d sid =
     (case find (\<lambda>a. sa_scopeId a = sid) (scopeAssignments d) of
        None \<Rightarrow> None
      | Some assignment \<Rightarrow>
          (case find (\<lambda>p. up_userId p = sa_userId assignment) (userProfiles d) of
             None \<Rightarrow> None
           | Some profile \<Rightarrow> Some (up_name profile)))"

record forecastArgs =
  fa_activityId :: ident
  fa_date :: string
  fa_forecastQuantity :: rat
  fa_forecastCrewSize :: rat
  fa_forecastHoursPerWorker :: rat
  fa_notes :: "string option"

record actualsArgs =
  aa_activityId :: ident
  aa_date :: string
  aa_actualQuantity :: rat
  aa_actualCrewSize :: rat
  aa_actualHoursPerWorker :: rat
  aa_notes :: "string option"

record entryArgs =
  ea_activityId :: ident
  ea_date :: string
  ea_forecastQuantity :: "rat option"
  ea_forecastCrewSize :: "rat option"
  ea_forecastHoursPerWorker :: "rat option"
  ea_actualQuantity :: "rat option"
  ea_actualCrewSize :: "rat option"
  ea_actualHoursPerWorker :: "rat option"
  ea_notes :: "string option"

text \<open>
  The responsible foreman of an entry: the name of the scope's assigned construction
  manager, else the submitting user's own profile name, else \<open>undefined\<close>.
\<close>

definition resolve_foreman :: "db \<Rightarrow> activity \<Rightarrow> ident \<Rightarrow> string option" where
  "resolve_foreman d act uid =
     (let assignedCMName = getAssignedCMName d (ac_scopeId act)
      in nullish_opt assignedCMName (getUserForemanName d uid))"

text \<open>
  The three mutations take the store, the authenticated user (\<open>getAuthUserId\<close>, \<open>None\<close>
  when there is none), the clock (\<open>Date.now()\<close>) and the arguments, and return the
  entry's id with the new store, or the error thrown. The object each passes to
  \<open>patch\<close> and to \<open>insert\<close> is a definition of its own.
\<close>

definition forecast_patch ::
  "ident \<Rightarrow> rat \<Rightarrow> string option \<Rightarrow> forecastArgs \<Rightarrow> dailyEntry \<Rightarrow> entryPatch" where
  "forecast_patch uid now foreman args existing =
     \<lparr> p_foremanName = Assign (nullish_opt foreman (foremanName existing)),
       p_forecastQuantity = Assign (Some (fa_forecastQuantity args)),
       p_forecastCrewSize = Assign (Some (fa_forecastCrewSize args)),
       p_forecastHoursPerWorker = Assign (Some (fa_forecastHoursPerWorker args)),
       p_forecastHours =
         Assign (Some (fa_forecastCrewSize args * fa_forecastHoursPerWorker args)),
       p_actualQuantity = Unmentioned,
       p_actualCrewSize = Unmentioned,
       p_actualHoursPerWorker = Unmentioned,
       p_actualHours = Unmentioned,
       p_notes = Assign (nullish_opt (fa_notes args) (entryNotes existing)),
       p_updatedBy = Assign (Some uid),
       p_updatedAt = Assign (Some now) \<rparr>"

definition forecast_doc ::
  "activity \<Rightarrow> ident \<Rightarrow> rat \<Rightarrow> string option \<Rightarrow> forecastArgs \<Rightarrow> dailyEntry" where
  "forecast_doc act uid now foreman args =
     \<lparr> entry_id = 0,
       activityId = fa_activityId args,
       scopeId = ac_scopeId act,
       projectId = ac_projectId act,
       date = fa_date args,
       userId = uid,
       foremanName = foreman,
       forecastQuantity = Some (fa_forecastQuantity args),
       forecastCrewSize = Some (fa_forecastCrewSize args),
       forecastHoursPerWorker = Some (fa_forecastHoursPerWorker args),
       forecastHours = Some (fa_forecastCrewSize args * fa_forecastHoursPerWorker args),
       actualQuantity = None,
       actualCrewSize = None,
       actualHoursPerWorker = None,
       actualHours = None,
       entryNotes = fa_notes args,
       createdBy = Some uid,
       createdAt = Some now,
       updatedBy = None,
       updatedAt = None \<rparr>"

definition submitForecast ::
  "db \<Rightarrow> ident option \<Rightarrow> rat \<Rightarrow> forecastArgs \<Rightarrow> error + (nat \<times> db)" where
  "submitForecast d auth now args =
     (case auth of
        None \<Rightarrow> Inl NotAuthenticated
      | Some uid \<Rightarrow>
     (case get_activity d (fa_activityId args) of
        None \<Rightarrow> Inl ActivityNotFound
      | Some act \<Rightarrow>
          if \<not> checkProjectAccess d uid (ac_projectId act) then Inl AccessDenied
          else
            (case first_by_activity_and_date d (fa_activityId args) (fa_date args) of
               Some existing \<Rightarrow>
                 Inr (entry_id existing,
                      db_patch d (entry_id existing)
                        (forecast_patch uid now (resolve_foreman d act uid) args existing))
             | None \<Rightarrow>
                 Inr (db_insert d (forecast_doc act uid now (resolve_foreman d act uid) args)))))"

definition actuals_patch ::
  "ident \<Rightarrow> rat \<Rightarrow> string option \<Rightarrow> actualsArgs \<Rightarrow> dailyEntry \<Rightarrow> entryPatch" where
  "actuals_patch uid now foreman args existing =
     \<lparr> p_foremanName = Assign (nullish_opt foreman (foremanName existing)),
       p_forecastQuantity = Unmentioned,
       p_forecastCrewSize = Unmentioned,
       p_forecastHoursPerWorker = Unmentioned,
       p_forecastHours = Unmentioned,
       p_actualQuantity = Assign (Some (aa_actualQuantity args)),
       p_actualCrewSize = Assign (Some (aa_actualCrewSize args)),
       p_actualHoursPerWorker = Assign (Some (aa_actualHoursPerWorker args)),
       p_actualHours = Assign (Some (aa_actualCrewSize args * aa_actualHoursPerWorker args)),
       p_notes = Assign (nullish_opt (aa_notes args) (entryNotes existing)),
       p_updatedBy = Assign (Some uid),
       p_updatedAt = Assign (Some now) \<rparr>"

definition actuals_doc ::
  "activity \<Rightarrow> ident \<Rightarrow> rat \<Rightarrow> string option \<Rightarrow> actualsArgs \<Rightarrow> dailyEntry" where
  "actuals_doc act uid now foreman args =
     \<lparr> entry_id = 0,
       activityId = aa_activityId args,
       scopeId = ac_scopeId act,
       projectId = ac_projectId act,
       date = aa_date args,
       userId = uid,
       foremanName = foreman,
       forecastQuantity = None,
       forecastCrewSize = None,
       forecastHoursPerWorker = None,
       forecastHours = None,
       actualQuantity = Some (aa_actualQuantity args),
       actualCrewSize = Some (aa_actualCrewSize args),
       actualHoursPerWorker = Some (aa_actualHoursPerWorker args),
       actualHours = Some (aa_actualCrewSize args * aa_actualHoursPerWorker args),
       entryNotes = aa_notes args,
       createdBy = Some uid,
       createdAt = Some now,
       updatedBy = None,
       updatedAt = None \<rparr>"

definition submitActuals ::
  "db \<Rightarrow> ident option \<Rightarrow> rat \<Rightarrow> actualsArgs \<Rightarrow> error + (nat \<times> db)" where
  "submitActuals d auth now args =
     (case auth of
        None \<Rightarrow> Inl NotAuthenticated
      | Some uid \<Rightarrow>
     (case get_activity d (aa_activityId args) of
        None \<Rightarrow> Inl ActivityNotFound
      | Some act \<Rightarrow>
          if \<not> checkProjectAccess d uid (ac_projectId act) then Inl AccessDenied
          else
            (case first_by_activity_and_date d (aa_activityId args) (aa_date args) of
               Some existing \<Rightarrow>
                 Inr (entry_id existing,
                      db_patch d (entry_id existing)
                        (actuals_patch uid now (resolve_foreman d act uid) args existing))
             | None \<Rightarrow>
                 Inr (db_insert d (actuals_doc act uid now (resolve_foreman d act uid) args)))))"

text \<open>\<open>(crew && hoursPerWorker) ? crew * hoursPerWorker : undefined\<close> of \<open>submitEntry\<close>.\<close>

definition derived_hours :: "rat option \<Rightarrow> rat option \<Rightarrow> rat option" where
  "derived_hours crew hpw =
     (if truthy_num crew \<and> truthy_num hpw then Some (nullish crew 0 * nullish hpw 0) else None)"

text \<open>\<open>submitEntry\<close> spreads one object \<open>data\<close>, which has all ten keys, into both the
  patch and the inserted document.\<close>

definition entry_patch :: "ident \<Rightarrow> rat \<Rightarrow> string option \<Rightarrow> entryArgs \<Rightarrow> entryPatch" where
  "entry_patch uid now foreman args =
     \<lparr> p_foremanName = Assign foreman,
       p_forecastQuantity = Assign (ea_forecastQuantity args),
       p_forecastCrewSize = Assign (ea_forecastCrewSize args),
       p_forecastHoursPerWorker = Assign (ea_forecastHoursPerWorker args),
       p_forecastHours =
         Assign (derived_hours (ea_forecastCrewSize args) (ea_forecastHoursPerWorker args)),
       p_actualQuantity = Assign (ea_actualQuantity args),
       p_actualCrewSize = Assign (ea_actualCrewSize args),
       p_actualHoursPerWorker = Assign (ea_actualHoursPerWorker args),
       p_actualHours =
         Assign (derived_hours (ea_actualCrewSize args) (ea_actualHoursPerWorker args)),
       p_notes = Assign (ea_notes args),
       p_updatedBy = Assign (Some uid),
       p_updatedAt = Assign (Some now) \<rparr>"

definition entry_doc ::
  "activity \<Rightarrow> ident \<Rightarrow> rat \<Rightarrow> string option \<Rightarrow> entryArgs \<Rightarrow> dailyEntry" where
  "entry_doc act uid now foreman args =
     \<lparr> entry_id = 0,
       activityId = ea_activityId args,
       scopeId = ac_scopeId act,
       projectId = ac_projectId act,
       date = ea_date args,
       userId = uid,
       foremanName = foreman,
       forecastQuantity = ea_forecastQuantity args,
       forecastCrewSize = ea_forecastCrewSize args,
       forecastHoursPerWorker = ea_forecastHoursPerWorker args,
       forecastHours =
         derived_hours (ea_forecastCrewSize args) (ea_forecastHoursPerWorker args),
       actualQuantity = ea_actualQuantity args,
       actualCrewSize = ea_actualCrewSize args,
       actualHoursPerWorker = ea_actualHoursPerWorker args,
       actualHours = derived_hours (ea_actualCrewSize args) (ea_actualHoursPerWorker args),
       entryNotes = ea_notes args,
       createdBy = Some uid,
       createdAt = Some now,
       updatedBy = None,
       updatedAt = None \<rparr>"

definition submitEntry ::
  "db \<Rightarrow> ident option \<Rightarrow> rat \<Rightarrow> entryArgs \<Rightarrow> error + (nat \<times> db)" where
  "submitEntry d auth now args =
     (case auth of
        None \<Rightarrow> Inl NotAuthenticated
      | Some uid \<Rightarrow>
     (case get_activity d (ea_activityId args) of
        None \<Rightarrow> Inl ActivityNotFound
      | Some act \<Rightarrow>
          if \<not> checkProjectAccess d uid (ac_projectId act) then Inl AccessDenied
          else
            (case first_by_activity_and_date d (ea_activityId args) (ea_date args) of
               Some existing \<Rightarrow>
                 Inr (entry_id existing,
                      db_patch d (entry_id existing)
                        (entry_patch uid now (resolve_foreman d act uid) args))
             | None \<Rightarrow>
                 Inr (db_insert d (entry_doc act uid now (resolve_foreman d act uid) args)))))"

text \<open>A sequence of calls, run one after the other; it stops at the first error.\<close>

datatype call =
    SubmitForecast "ident option" rat forecastArgs
  | SubmitActuals "ident option" rat actualsArgs
  | SubmitEntry "ident option" rat entryArgs

fun exec_call :: "db \<Rightarrow> call \<Rightarrow> error + (nat \<times> db)" where
  "exec_call d (SubmitForecast auth now args) = submitForecast d auth now args"
| "exec_call d (SubmitActuals auth now args) = submitActuals d auth now args"
| "exec_call d (SubmitEntry auth now args) = submitEntry d auth now args"

fun run_calls :: "db \<Rightarrow> call list \<Rightarrow> error + db" where
  "run_calls d [] = Inr d"
| "run_calls d (c # cs) =
     (case exec_call d c of Inl e \<Rightarrow> Inl e | Inr (i, d') \<Rightarrow> run_calls d' cs)"

text \<open>The number of daily entries stored for an (activity, date) pair.\<close>

definition entries_for :: "db \<Rightarrow> ident \<Rightarrow> string \<Rightarrow> dailyEntry list" where
  "entries_for d a dt = filter (\<lambda>e. activityId e = a \<and> date e = dt) (dailyEntries d)"

section \<open>JavaScript objects used as dictionaries, and Sets\<close>

text \<open>
  \<open>Record<string, T>\<close>: the keys with their values, in the order the keys were first
  written, which is the order \<open>Object.entries\<close> lists them in. (JavaScript lists keys that
  are canonical array indices first and finds the names of \<open>Object.prototype\<close> under
  every key; dates "YYYY-MM-DD", the names of people and document ids are neither.) A
  \<open>Set\<close> is the list of its members in insertion order.
\<close>

type_synonym 'v dict = "(string \<times> 'v) list"

definition dict_init :: "'v dict \<Rightarrow> string \<Rightarrow> 'v \<Rightarrow> 'v dict" where
  "dict_init m k v = (if map_of m k = None then m @ [(k, v)] else m)"

definition dict_update :: "string \<Rightarrow> ('v \<Rightarrow> 'v) \<Rightarrow> 'v dict \<Rightarrow> 'v dict" where
  "dict_update k f m = map (\<lambda>(k', v). if k' = k then (k', f v) else (k', v)) m"

definition set_add :: "'a list \<Rightarrow> 'a \<Rightarrow> 'a list" where
  "set_add xs x = (if x \<in> set xs then xs else xs @ [x])"

fun map_err :: "('a \<Rightarrow> error + 'b) \<Rightarrow> 'a list \<Rightarrow> error + 'b list" where
  "map_err f [] = Inr []"
| "map_err f (x # xs) =
     bind_err (f x) (\<lambda>y. bind_err (map_err f xs) (\<lambda>ys. Inr (y # ys)))"

text \<open>\<open>d > 0 ? n / d : 0\<close>, the form of every ratio in dashboard.ts and leaderboard.ts.\<close>

definition guarded_div :: "rat \<Rightarrow> rat \<Rightarrow> error + rat" where
  "guarded_div n d = (if d > 0 then js_div n d else Inr 0)"

section \<open>Aggregator (convex/dashboard.ts)\<close>

text \<open>The four running totals of the \<open>for (const entry of entries)\<close> loops.\<close>

record totals =
  totalForecastQuantity :: rat
  totalActualQuantity :: rat
  totalForecastHours :: rat
  totalActualHours :: rat

definition add_entry :: "totals \<Rightarrow> dailyEntry \<Rightarrow> totals" where
  "add_entry t entry =
     \<lparr> totalForecastQuantity = totalForecastQuantity t + nullish (forecastQuantity entry) 0,
       totalActualQuantity = totalActualQuantity t + nullish (actualQuantity entry) 0,
       totalForecastHours = totalForecastHours t + nullish (forecastHours entry) 0,
       totalActualHours = totalActualHours t + nullish (actualHours entry) 0 \<rparr>"

definition sum_entries :: "dailyEntry list \<Rightarrow> totals" where
  "sum_entries entries =
     foldl add_entry
       \<lparr> totalForecastQuantity = 0, totalActualQuantity = 0,
         totalForecastHours = 0, totalActualHours = 0 \<rparr> entries"

text \<open>
  The objects the KPI queries return. \<open>getAllProjectsKPIs\<close> names its entry count
  \<open>totalEntries\<close>; it is the field \<open>entriesCount\<close> here.
\<close>

record kpis = totals +
  quantityVariance :: rat
  productionRate :: rat
  entriesCount :: nat

record projectKPIs = kpis +
  hoursVariance :: rat

record scopeKPIs = kpis +
  scopeName :: string

record activityKPIs = scopeKPIs +
  activityName :: string
  activityUnit :: string

record allProjectsKPIs = projectKPIs +
  totalProjects :: nat
  activeProjects :: nat
  efficiency :: rat

text \<open>A query returns \<open>Inr None\<close> for \<open>null\<close>, \<open>Inr []\<close> for the empty list.\<close>

definition getProjectKPIs :: "db \<Rightarrow> ident option \<Rightarrow> ident \<Rightarrow> error + projectKPIs option" where
  "getProjectKPIs d auth pid =
     (case auth of
        None \<Rightarrow> Inr None
      | Some uid \<Rightarrow>
          if \<not> checkProjectAccess d uid pid then Inr None
          else
            let entries = collect_by_project d pid;
                t = sum_entries entries
            in bind_err (guarded_div (totalActualQuantity t) (totalActualHours t))
                 (\<lambda>rate. Inr (Some
                    \<lparr> totalForecastQuantity = totalForecastQuantity t,
                      totalActualQuantity = totalActualQuantity t,
                      totalForecastHours = totalForecastHours t,
                      totalActualHours = totalActualHours t,
                      quantityVariance = totalActualQuantity t - totalForecastQuantity t,
                      productionRate = rate,
                      entriesCount = length entries,
                      hoursVariance = totalActualHours t - totalForecastHours t \<rparr>)))"

definition getScopeKPIs :: "db \<Rightarrow> ident option \<Rightarrow> ident \<Rightarrow> error + scopeKPIs option" where
  "getScopeKPIs d auth sid =
     (case auth of
        None \<Rightarrow> Inr None
      | Some uid \<Rightarrow>
     (case get_scope d sid of
        None \<Rightarrow> Inr None
      | Some sc \<Rightarrow>
          if \<not> checkProjectAccess d uid (sc_projectId sc) then Inr None
          else
            let entries = collect_by_scope d sid;
                t = sum_entries entries
            in bind_err (guarded_div (totalActualQuantity t) (totalActualHours t))
                 (\<lambda>rate. Inr (Some
                    \<lparr> totalForecastQuantity = totalForecastQuantity t,
                      totalActualQuantity = totalActualQuantity t,
                      totalForecastHours = totalForecastHours t,
                      totalActualHours = totalActualHours t,
                      quantityVariance = totalActualQuantity t - totalForecastQuantity t,
                      productionRate = rate,
                      entriesCount = length entries,
                      scopeName = sc_name sc \<rparr>))))"

definition getActivityKPIs :: "db \<Rightarrow> ident option \<Rightarrow> ident \<Rightarrow> error + activityKPIs option" where
  "getActivityKPIs d auth aid =
     (case auth of
        None \<Rightarrow> Inr None
      | Some uid \<Rightarrow>
     (case get_activity d aid of
        None \<Rightarrow> Inr None
      | Some act \<Rightarrow>
          if \<not> checkProjectAccess d uid (ac_projectId act) then Inr None
          else
            let sc = get_scope d (ac_scopeId act);
                entries = collect_by_activity d aid;
                t = sum_entries entries
            in bind_err (guarded_div (totalActualQuantity t) (totalActualHours t))
                 (\<lambda>rate. Inr (Some
                    \<lparr> totalForecastQuantity = totalForecastQuantity t,
                      totalActualQuantity = totalActualQuantity t,
                      totalForecastHours = totalForecastHours t,
                      totalActualHours = totalActualHours t,
                      quantityVariance = totalActualQuantity t - totalForecastQuantity t,
                      productionRate = rate,
                      entriesCount = length entries,
                      scopeName = (case sc of None \<Rightarrow> ''Unknown'' | Some s \<Rightarrow> sc_name s),
                      activityName = ac_name act,
                      activityUnit = ac_unit act \<rparr>))))"

definition getAllProjectsKPIs :: "db \<Rightarrow> ident option \<Rightarrow> error + allProjectsKPIs option" where
  "getAllProjectsKPIs d auth =
     (case auth of
        None \<Rightarrow> Inr None
      | Some uid \<Rightarrow>
          if \<not> isControlCenter d uid then Inr None
          else
            let allEntries = dailyEntries d;
                t = sum_entries allEntries
            in bind_err (guarded_div (totalActualQuantity t) (totalActualHours t))
                 (\<lambda>rate.
               bind_err (if totalForecastQuantity t > 0
                         then bind_err (js_div (totalActualQuantity t) (totalForecastQuantity t))
                                (\<lambda>q. Inr (q * 100))
                         else Inr 0)
                 (\<lambda>eff. Inr (Some
                    \<lparr> totalForecastQuantity = totalForecastQuantity t,
                      totalActualQuantity = totalActualQuantity t,
                      totalForecastHours = totalForecastHours t,
                      totalActualHours = totalActualHours t,
                      quantityVariance = totalActualQuantity t - totalForecastQuantity t,
                      productionRate = rate,
                      entriesCount = length allEntries,
                      hoursVariance = totalActualHours t - totalForecastHours t,
                      totalProjects = length (projects d),
                      activeProjects = length (filter (\<lambda>p. pr_status p = active) (projects d)),
                      efficiency = eff \<rparr>))))"

subsection \<open>Trend data\<close>

text \<open>The value \<open>byDate\<close> holds for a date, and an element of the returned series.\<close>

record dateTotals =
  bd_totalForecast :: rat
  bd_totalActual :: rat
  bd_forecastHours :: rat
  bd_actualHours :: rat
  weightedPFSum :: rat
  weightSum :: rat

record trendPoint =
  tp_date :: string
  tp_productionFactor :: rat
  tp_forecastHours :: rat
  tp_actualHours :: rat
  tp_totalForecast :: rat
  tp_totalActual :: rat

definition zero_dateTotals :: dateTotals where
  "zero_dateTotals =
     \<lparr> bd_totalForecast = 0, bd_totalActual = 0, bd_forecastHours = 0, bd_actualHours = 0,
       weightedPFSum = 0, weightSum = 0 \<rparr>"

text \<open>The body of the loop over \<open>filteredEntries\<close>.\<close>

definition trend_step :: "dateTotals dict \<Rightarrow> dailyEntry \<Rightarrow> error + dateTotals dict" where
  "trend_step byDate entry =
     (let byDate1 = dict_init byDate (date entry) zero_dateTotals;
          forecast = nullish (forecastQuantity entry) 0;
          actual = nullish (actualQuantity entry) 0;
          byDate2 = dict_update (date entry)
            (\<lambda>t. t\<lparr> bd_totalForecast := bd_totalForecast t + forecast,
                    bd_totalActual := bd_totalActual t + actual,
                    bd_forecastHours := bd_forecastHours t + nullish (forecastHours entry) 0,
                    bd_actualHours := bd_actualHours t + nullish (actualHours entry) 0 \<rparr>)
            byDate1;
          fHours = nullish (forecastHours entry) 0
      in if forecast > 0 \<and> fHours > 0
         then bind_err (js_div actual forecast)
                (\<lambda>entryPF. Inr (dict_update (date entry)
                   (\<lambda>t. t\<lparr> weightedPFSum := weightedPFSum t + entryPF * fHours,
                           weightSum := weightSum t + fHours \<rparr>)
                   byDate2))
         else Inr byDate2)"

definition trend_point :: "string \<times> dateTotals \<Rightarrow> error + trendPoint" where
  "trend_point kv =
     (case kv of (dt, data) \<Rightarrow>
        bind_err (guarded_div (weightedPFSum data) (weightSum data))
          (\<lambda>pf. Inr \<lparr> tp_date = dt,
                       tp_productionFactor = pf,
                       tp_forecastHours = bd_forecastHours data,
                       tp_actualHours = bd_actualHours data,
                       tp_totalForecast = bd_totalForecast data,
                       tp_totalActual = bd_totalActual data \<rparr>))"

text \<open>\<open>.sort((a, b) => a.date.localeCompare(b.date))\<close>: a stable sort by date.\<close>

definition in_range :: "string \<Rightarrow> string \<Rightarrow> dailyEntry \<Rightarrow> bool" where
  "in_range startDate endDate e = (startDate \<le> date e \<and> date e \<le> endDate)"

definition getTrendData ::
  "db \<Rightarrow> ident option \<Rightarrow> ident \<Rightarrow> string \<Rightarrow> string \<Rightarrow> error + trendPoint list" where
  "getTrendData d auth pid startDate endDate =
     (case auth of
        None \<Rightarrow> Inr []
      | Some uid \<Rightarrow>
          if \<not> checkProjectAccess d uid pid then Inr []
          else
            let entries = collect_by_project d pid;
                filteredEntries = filter (in_range startDate endDate) entries
            in bind_err (foldl_err trend_step [] filteredEntries)
                 (\<lambda>byDate. bind_err (map_err trend_point byDate)
                    (\<lambda>points. Inr (sort_key tp_date points))))"

subsection \<open>Trend data across all projects\<close>

record dateSums =
  ds_forecastQuantity :: rat
  ds_actualQuantity :: rat
  ds_forecastHours :: rat
  ds_actualHours :: rat

record allTrendPoint =
  at_date :: string
  at_forecastQuantity :: rat
  at_actualQuantity :: rat
  at_forecastHours :: rat
  at_actualHours :: rat

definition all_trend_step :: "dateSums dict \<Rightarrow> dailyEntry \<Rightarrow> dateSums dict" where
  "all_trend_step byDate entry =
     dict_update (date entry)
       (\<lambda>t. \<lparr> ds_forecastQuantity = ds_forecastQuantity t + nullish (forecastQuantity entry) 0,
              ds_actualQuantity = ds_actualQuantity t + nullish (actualQuantity entry) 0,
              ds_forecastHours = ds_forecastHours t + nullish (forecastHours entry) 0,
              ds_actualHours = ds_actualHours t + nullish (actualHours entry) 0 \<rparr>)
       (dict_init byDate (date entry)
          \<lparr> ds_forecastQuantity = 0, ds_actualQuantity = 0,
            ds_forecastHours = 0, ds_actualHours = 0 \<rparr>)"

definition getAllProjectsTrendData ::
  "db \<Rightarrow> ident option \<Rightarrow> string \<Rightarrow> string \<Rightarrow> error + allTrendPoint list" where
  "getAllProjectsTrendData d auth startDate endDate =
     (case auth of
        None \<Rightarrow> Inr []
      | Some uid \<Rightarrow>
          if \<not> isControlCenter d uid then Inr []
          else
            let filteredEntries = filter (in_range startDate endDate) (dailyEntries d);
                byDate = foldl all_trend_step [] filteredEntries
            in Inr (sort_key at_date
                 (map (\<lambda>(dt, data).
                         \<lparr> at_date = dt,
                           at_forecastQuantity = ds_forecastQuantity data,
                           at_actualQuantity = ds_actualQuantity data,
                           at_forecastHours = ds_forecastHours data,
                           at_actualHours = ds_actualHours data \<rparr>) byDate)))"

section \<open>Ranker (convex/leaderboard.ts)\<close>

text \<open>The value \<open>byForeman\<close> holds for a key; the project leaderboard adds two Sets.\<close>

record foremanTotals =
  fm_totalActualQuantity :: rat
  fm_totalActualHours :: rat
  fm_totalForecastQuantity :: rat
  fm_totalForecastHours :: rat
  fm_entriesCount :: nat

record foremanTotalsP = foremanTotals +
  activitiesWorked :: "ident list"
  scopesWorked :: "ident list"

record leaderboardRow =
  lb_foremanName :: string
  lb_totalActualQuantity :: rat
  lb_totalActualHours :: rat
  lb_totalForecastQuantity :: rat
  lb_totalForecastHours :: rat
  lb_productionRate :: rat
  lb_productionFactor :: rat
  lb_variancePercent :: rat
  lb_entriesCount :: nat

record projectLeaderboardRow = leaderboardRow +
  scopeNames :: "string list"
  activitiesCount :: nat

text \<open>\<open>{ ...entry, rank: index + 1 }\<close>.\<close>

record 'a ranked =
  ranked_row :: 'a
  rank :: nat

definition date_range_filter ::
  "string option \<Rightarrow> string option \<Rightarrow> dailyEntry list \<Rightarrow> dailyEntry list" where
  "date_range_filter startDate endDate entries =
     (case startDate of
        None \<Rightarrow> entries
      | Some s \<Rightarrow>
          (case endDate of
             None \<Rightarrow> entries
           | Some e \<Rightarrow>
               if s \<noteq> [] \<and> e \<noteq> [] then filter (in_range s e) entries else entries))"

definition foremanKey :: "dailyEntry \<Rightarrow> string" where
  "foremanKey entry = nullish (foremanName entry) (userId entry)"

definition add_to_foreman ::
  "dailyEntry \<Rightarrow> 'a foremanTotals_scheme \<Rightarrow> 'a foremanTotals_scheme" where
  "add_to_foreman entry t =
     t\<lparr> fm_totalActualQuantity := fm_totalActualQuantity t + nullish (actualQuantity entry) 0,
        fm_totalActualHours := fm_totalActualHours t + nullish (actualHours entry) 0,
        fm_totalForecastQuantity :=
          fm_totalForecastQuantity t + nullish (forecastQuantity entry) 0,
        fm_totalForecastHours := fm_totalForecastHours t + nullish (forecastHours entry) 0,
        fm_entriesCount := fm_entriesCount t + 1 \<rparr>"

definition scope_foreman_step :: "foremanTotals dict \<Rightarrow> dailyEntry \<Rightarrow> foremanTotals dict" where
  "scope_foreman_step byForeman entry =
     dict_update (foremanKey entry) (add_to_foreman entry)
       (dict_init byForeman (foremanKey entry)
          \<lparr> fm_totalActualQuantity = 0, fm_totalActualHours = 0,
            fm_totalForecastQuantity = 0, fm_totalForecastHours = 0,
            fm_entriesCount = 0 \<rparr>)"

definition project_foreman_step ::
  "foremanTotalsP dict \<Rightarrow> dailyEntry \<Rightarrow> foremanTotalsP dict" where
  "project_foreman_step byForeman entry =
     dict_update (foremanKey entry)
       (\<lambda>t. (add_to_foreman entry t)
              \<lparr> activitiesWorked := set_add (activitiesWorked t) (activityId entry),
                scopesWorked := set_add (scopesWorked t) (scopeId entry) \<rparr>)
       (dict_init byForeman (foremanKey entry)
          \<lparr> fm_totalActualQuantity = 0, fm_totalActualHours = 0,
            fm_totalForecastQuantity = 0, fm_totalForecastHours = 0,
            fm_entriesCount = 0, activitiesWorked = [], scopesWorked = [] \<rparr>)"

text \<open>A key that contains a colon is taken for a user id and resolved to the profile
  name.\<close>

definition display_name :: "db \<Rightarrow> string \<Rightarrow> string" where
  "display_name d k =
     (if CHR '':'' \<in> set k
      then (case find (\<lambda>p. up_userId p = k) (userProfiles d) of
              None \<Rightarrow> ''Unknown''
            | Some profile \<Rightarrow> up_name profile)
      else k)"

text \<open>The three ratios of a group, before rounding: production rate, production factor
  and variance percent.\<close>

definition foreman_ratios :: "'a foremanTotals_scheme \<Rightarrow> error + (rat \<times> rat \<times> rat)" where
  "foreman_ratios data =
     bind_err (guarded_div (fm_totalActualQuantity data) (fm_totalActualHours data))
       (\<lambda>rate.
     bind_err (guarded_div (fm_totalActualQuantity data) (fm_totalForecastQuantity data))
       (\<lambda>factor.
     bind_err (if fm_totalForecastQuantity data > 0
               then bind_err (js_div (fm_totalActualQuantity data - fm_totalForecastQuantity data)
                                (fm_totalForecastQuantity data))
                      (\<lambda>q. Inr (q * 100))
               else Inr 0)
       (\<lambda>variance. Inr (rate, factor, variance))))"

definition scope_row :: "db \<Rightarrow> string \<times> foremanTotals \<Rightarrow> error + leaderboardRow" where
  "scope_row d kv =
     (case kv of (k, data) \<Rightarrow>
        bind_err (foreman_ratios data)
          (\<lambda>(rate, factor, variance). Inr
             \<lparr> lb_foremanName = display_name d k,
               lb_totalActualQuantity = fm_totalActualQuantity data,
               lb_totalActualHours = fm_totalActualHours data,
               lb_totalForecastQuantity = fm_totalForecastQuantity data,
               lb_totalForecastHours = fm_totalForecastHours data,
               lb_productionRate = Math_round (rate * 100) / 100,
               lb_productionFactor = Math_round (factor * 100) / 100,
               lb_variancePercent = Math_round (variance * 10) / 10,
               lb_entriesCount = fm_entriesCount data \<rparr>))"

definition project_row :: "db \<Rightarrow> string \<times> foremanTotalsP \<Rightarrow> error + projectLeaderboardRow" where
  "project_row d kv =
     (case kv of (k, data) \<Rightarrow>
        bind_err (foreman_ratios data)
          (\<lambda>(rate, factor, variance). Inr
             \<lparr> lb_foremanName = display_name d k,
               lb_totalActualQuantity = fm_totalActualQuantity data,
               lb_totalActualHours = fm_totalActualHours data,
               lb_totalForecastQuantity = fm_totalForecastQuantity data,
               lb_totalForecastHours = fm_totalForecastHours data,
               lb_productionRate = Math_round (rate * 100) / 100,
               lb_productionFactor = Math_round (factor * 100) / 100,
               lb_variancePercent = Math_round (variance * 10) / 10,
               lb_entriesCount = fm_entriesCount data,
               scopeNames =
                 List.map_filter (\<lambda>sid. map_option sc_name (get_scope d sid)) (scopesWorked data),
               activitiesCount = length (activitiesWorked data) \<rparr>))"

text \<open>
  \<open>leaderboard.sort((a, b) => b.productionFactor - a.productionFactor)\<close>, a stable sort
  by descending production factor, and the ranks by position.
\<close>

definition sort_by_factor ::
  "'a leaderboardRow_scheme list \<Rightarrow> 'a leaderboardRow_scheme list" where
  "sort_by_factor rows = sort_key (\<lambda>r. - lb_productionFactor r) rows"

definition add_rank :: "'a list \<Rightarrow> 'a ranked list" where
  "add_rank rows =
     map (\<lambda>(index, entry). \<lparr> ranked_row = entry, rank = index + 1 \<rparr>) (enumerate 0 rows)"

definition getProjectLeaderboard ::
  "db \<Rightarrow> ident option \<Rightarrow> ident \<Rightarrow> string option \<Rightarrow> string option
     \<Rightarrow> error + projectLeaderboardRow ranked list" where
  "getProjectLeaderboard d auth pid startDate endDate =
     (case auth of
        None \<Rightarrow> Inr []
      | Some uid \<Rightarrow>
          if \<not> checkProjectAccess d uid pid then Inr []
          else
            let entries = date_range_filter startDate endDate (collect_by_project d pid);
                byForeman = foldl project_foreman_step [] entries
            in bind_err (map_err (project_row d) byForeman)
                 (\<lambda>leaderboard. Inr (add_rank (sort_by_factor leaderboard))))"

definition getScopeLeaderboard ::
  "db \<Rightarrow> ident option \<Rightarrow> ident \<Rightarrow> string option \<Rightarrow> string option
     \<Rightarrow> error + leaderboardRow ranked list" where
  "getScopeLeaderboard d auth sid startDate endDate =
     (case auth of
        None \<Rightarrow> Inr []
      | Some uid \<Rightarrow>
     (case get_scope d sid of
        None \<Rightarrow> Inr []
      | Some sc \<Rightarrow>
          if \<not> checkProjectAccess d uid (sc_projectId sc) then Inr []
          else
            let entries = date_range_filter startDate endDate (collect_by_scope d sid);
                byForeman = foldl scope_foreman_step [] entries
            in bind_err (map_err (scope_row d) byForeman)
                 (\<lambda>leaderboard. Inr (add_rank (sort_by_factor leaderboard)))))"

subsection \<open>Breakdowns by scope and by activity\<close>

text \<open>The value \<open>byActivity\<close> holds for an activity; \<open>byScope\<close> adds the Set of
  activities.\<close>

record activityGroup = foremanTotals +
  foremenWorked :: "string list"

record scopeGroup = activityGroup +
  sg_activitiesWorked :: "ident list"

record breakdownRow =
  br_totalActualQuantity :: rat
  br_totalForecastQuantity :: rat
  br_totalActualHours :: rat
  br_totalForecastHours :: rat
  br_productionFactor :: rat
  br_variancePercent :: rat
  br_entriesCount :: nat
  foremenNames :: "string list"

record scopeBreakdownRow = breakdownRow +
  br_scopeId :: ident
  br_scopeName :: string
  br_activitiesCount :: nat
  foremenCount :: nat

record activityBreakdownRow = breakdownRow +
  br_activityId :: ident
  br_activityName :: string
  br_unit :: string

definition add_foreman :: "dailyEntry \<Rightarrow> string list \<Rightarrow> string list" where
  "add_foreman entry names =
     (if truthy_str (foremanName entry) then set_add names (nullish (foremanName entry) [])
      else names)"

definition zero_activityGroup :: activityGroup where
  "zero_activityGroup =
     \<lparr> fm_totalActualQuantity = 0, fm_totalActualHours = 0,
       fm_totalForecastQuantity = 0, fm_totalForecastHours = 0,
       fm_entriesCount = 0, foremenWorked = [] \<rparr>"

definition zero_scopeGroup :: scopeGroup where
  "zero_scopeGroup =
     \<lparr> fm_totalActualQuantity = 0, fm_totalActualHours = 0,
       fm_totalForecastQuantity = 0, fm_totalForecastHours = 0,
       fm_entriesCount = 0, foremenWorked = [], sg_activitiesWorked = [] \<rparr>"

definition scope_group_step :: "scopeGroup dict \<Rightarrow> dailyEntry \<Rightarrow> scopeGroup dict" where
  "scope_group_step byScope entry =
     dict_update (scopeId entry)
       (\<lambda>t. (add_to_foreman entry t)
              \<lparr> foremenWorked := add_foreman entry (foremenWorked t),
                sg_activitiesWorked := set_add (sg_activitiesWorked t) (activityId entry) \<rparr>)
       (dict_init byScope (scopeId entry) zero_scopeGroup)"

definition activity_group_step ::
  "activityGroup dict \<Rightarrow> dailyEntry \<Rightarrow> activityGroup dict" where
  "activity_group_step byActivity entry =
     dict_update (activityId entry)
       (\<lambda>t. (add_to_foreman entry t)
              \<lparr> foremenWorked := add_foreman entry (foremenWorked t) \<rparr>)
       (dict_init byActivity (activityId entry) zero_activityGroup)"

text \<open>Production factor and variance percent of a group, before rounding.\<close>

definition breakdown_ratios :: "'a foremanTotals_scheme \<Rightarrow> error + (rat \<times> rat)" where
  "breakdown_ratios data =
     bind_err (guarded_div (fm_totalActualQuantity data) (fm_totalForecastQuantity data))
       (\<lambda>factor.
     bind_err (if fm_totalForecastQuantity data > 0
               then bind_err (js_div (fm_totalActualQuantity data - fm_totalForecastQuantity data)
                                (fm_totalForecastQuantity data))
                      (\<lambda>q. Inr (q * 100))
               else Inr 0)
       (\<lambda>variance. Inr (factor, variance)))"

definition scope_breakdown_row :: "scopeGroup dict \<Rightarrow> scope \<Rightarrow> error + scopeBreakdownRow" where
  "scope_breakdown_row byScope sc =
     (let data = nullish (map_of byScope (sc_id sc)) zero_scopeGroup
      in bind_err (breakdown_ratios data)
           (\<lambda>(factor, variance). Inr
              \<lparr> br_totalActualQuantity = fm_totalActualQuantity data,
                br_totalForecastQuantity = fm_totalForecastQuantity data,
                br_totalActualHours = fm_totalActualHours data,
                br_totalForecastHours = fm_totalForecastHours data,
                br_productionFactor = Math_round (factor * 100) / 100,
                br_variancePercent = Math_round (variance * 10) / 10,
                br_entriesCount = fm_entriesCount data,
                foremenNames = foremenWorked data,
                br_scopeId = sc_id sc,
                br_scopeName = sc_name sc,
                br_activitiesCount = length (sg_activitiesWorked data),
                foremenCount = length (foremenWorked data) \<rparr>))"

definition activity_breakdown_row ::
  "activityGroup dict \<Rightarrow> activity \<Rightarrow> error + activityBreakdownRow" where
  "activity_breakdown_row byActivity act =
     (let data = nullish (map_of byActivity (ac_id act)) zero_activityGroup
      in bind_err (breakdown_ratios data)
           (\<lambda>(factor, variance). Inr
              \<lparr> br_totalActualQuantity = fm_totalActualQuantity data,
                br_totalForecastQuantity = fm_totalForecastQuantity data,
                br_totalActualHours = fm_totalActualHours data,
                br_totalForecastHours = fm_totalForecastHours data,
                br_productionFactor = Math_round (factor * 100) / 100,
                br_variancePercent = Math_round (variance * 10) / 10,
                br_entriesCount = fm_entriesCount data,
                foremenNames = foremenWorked data,
                br_activityId = ac_id act,
                br_activityName = ac_name act,
                br_unit = ac_unit act \<rparr>))"

definition sort_breakdown :: "'a breakdownRow_scheme list \<Rightarrow> 'a breakdownRow_scheme list" where
  "sort_breakdown rows = sort_key (\<lambda>r. - br_productionFactor r) rows"

definition getScopeBreakdown ::
  "db \<Rightarrow> ident option \<Rightarrow> ident \<Rightarrow> string option \<Rightarrow> string option
     \<Rightarrow> error + scopeBreakdownRow list" where
  "getScopeBreakdown d auth pid startDate endDate =
     (case auth of
        None \<Rightarrow> Inr []
      | Some uid \<Rightarrow>
          if \<not> checkProjectAccess d uid pid then Inr []
          else
            let scs = filter (\<lambda>s. sc_projectId s = pid) (scopes d);
                entries = date_range_filter startDate endDate (collect_by_project d pid);
                byScope = foldl scope_group_step [] entries
            in bind_err (map_err (scope_breakdown_row byScope) scs)
                 (\<lambda>breakdown. Inr (sort_breakdown breakdown)))"

definition getActivityBreakdown ::
  "db \<Rightarrow> ident option \<Rightarrow> ident \<Rightarrow> string option \<Rightarrow> string option
     \<Rightarrow> error + activityBreakdownRow list" where
  "getActivityBreakdown d auth sid startDate endDate =
     (case auth of
        None \<Rightarrow> Inr []
      | Some uid \<Rightarrow>
     (case get_scope d sid of
        None \<Rightarrow> Inr []
      | Some sc \<Rightarrow>
          if \<not> checkProjectAccess d uid (sc_projectId sc) then Inr []
          else
            let acts = filter (\<lambda>a. ac_scopeId a = sid) (activities d);
                entries = date_range_filter startDate endDate (collect_by_scope d sid);
                byActivity = foldl activity_group_step [] entries
            in bind_err (map_err (activity_breakdown_row byActivity) acts)
                 (\<lambda>breakdown. Inr (sort_breakdown breakdown))))"

subsection \<open>The other aggregations of dashboard.ts and leaderboard.ts\<close>

record scopeKPIsRow = scopeKPIs +
  row_scopeId :: ident

definition scope_kpis_row :: "db \<Rightarrow> scope \<Rightarrow> error + scopeKPIsRow" where
  "scope_kpis_row d sc =
     (let entries = collect_by_scope d (sc_id sc);
          t = sum_entries entries
      in bind_err (guarded_div (totalActualQuantity t) (totalActualHours t))
           (\<lambda>rate. Inr
              \<lparr> totalForecastQuantity = totalForecastQuantity t,
                totalActualQuantity = totalActualQuantity t,
                totalForecastHours = totalForecastHours t,
                totalActualHours = totalActualHours t,
                quantityVariance = totalActualQuantity t - totalForecastQuantity t,
                productionRate = rate,
                entriesCount = length entries,
                scopeName = sc_name sc,
                row_scopeId = sc_id sc \<rparr>))"

definition getAllScopeKPIs :: "db \<Rightarrow> ident option \<Rightarrow> ident \<Rightarrow> error + scopeKPIsRow list" where
  "getAllScopeKPIs d auth pid =
     (case auth of
        None \<Rightarrow> Inr []
      | Some uid \<Rightarrow>
          if \<not> checkProjectAccess d uid pid then Inr []
          else map_err (scope_kpis_row d) (filter (\<lambda>s. sc_projectId s = pid) (scopes d)))"

text \<open>\<open>getProjectsSummary\<close>: three running totals per project and its efficiency.\<close>

record projectSummary =
  ps_projectId :: ident
  ps_name :: string
  ps_status :: status
  ps_scopeCount :: nat
  ps_totalForecast :: rat
  ps_totalActual :: rat
  ps_totalHours :: rat
  ps_efficiency :: rat
  ps_entriesCount :: nat

definition project_summary :: "db \<Rightarrow> project \<Rightarrow> error + projectSummary" where
  "project_summary d p =
     (let entries = collect_by_project d (pr_id p);
          scs = filter (\<lambda>s. sc_projectId s = pr_id p) (scopes d);
          t = sum_entries entries
      in bind_err (if totalForecastQuantity t > 0
                   then bind_err (js_div (totalActualQuantity t) (totalForecastQuantity t))
                          (\<lambda>q. Inr (q * 100))
                   else Inr 0)
           (\<lambda>eff. Inr
              \<lparr> ps_projectId = pr_id p,
                ps_name = pr_name p,
                ps_status = pr_status p,
                ps_scopeCount = length scs,
                ps_totalForecast = totalForecastQuantity t,
                ps_totalActual = totalActualQuantity t,
                ps_totalHours = totalActualHours t,
                ps_efficiency = eff,
                ps_entriesCount = length entries \<rparr>))"

definition getProjectsSummary :: "db \<Rightarrow> ident option \<Rightarrow> error + projectSummary list" where
  "getProjectsSummary d auth =
     (case auth of
        None \<Rightarrow> Inr []
      | Some uid \<Rightarrow>
          if \<not> isControlCenter d uid then Inr []
          else map_err (project_summary d) (projects d))"

text \<open>\<open>getUserStats\<close> (leaderboard.ts): the totals of one user's entries in a project.\<close>

record userStats = totals +
  us_userId :: ident
  us_userName :: string
  us_role :: role
  us_productionRate :: rat
  us_variance :: rat
  us_entriesCount :: nat

definition collect_by_user :: "db \<Rightarrow> ident \<Rightarrow> dailyEntry list" where
  "collect_by_user d u = sort_key date (filter (\<lambda>e. userId e = u) (dailyEntries d))"

definition getUserStats ::
  "db \<Rightarrow> ident option \<Rightarrow> ident \<Rightarrow> ident \<Rightarrow> string option \<Rightarrow> string option
     \<Rightarrow> error + userStats option" where
  "getUserStats d auth pid targetUserId startDate endDate =
     (case auth of
        None \<Rightarrow> Inr None
      | Some uid \<Rightarrow>
          if \<not> checkProjectAccess d uid pid then Inr None
          else
            let entries = date_range_filter startDate endDate
                            (filter (\<lambda>e. projectId e = pid) (collect_by_user d targetUserId));
                t = sum_entries entries;
                profile = find (\<lambda>p. up_userId p = targetUserId) (userProfiles d)
            in bind_err (guarded_div (totalActualQuantity t) (totalActualHours t))
                 (\<lambda>rate. Inr (Some
                    \<lparr> totalForecastQuantity = totalForecastQuantity t,
                      totalActualQuantity = totalActualQuantity t,
                      totalForecastHours = totalForecastHours t,
                      totalActualHours = totalActualHours t,
                      us_userId = targetUserId,
                      us_userName = (case profile of None \<Rightarrow> ''Unknown'' | Some p \<Rightarrow> up_name p),
                      us_role = (case profile of None \<Rightarrow> construction_manager
                                 | Some p \<Rightarrow> up_role p),
                      us_productionRate = rate,
                      us_variance = totalActualQuantity t - totalForecastQuantity t,
                      us_entriesCount = length entries \<rparr>)))"

section \<open>User profiles (convex/userProfiles.ts)\<close>

text \<open>
  Two queries of userProfiles.ts. \<open>getCurrentProfile\<close> resolves the caller first, as the
  other queries of the repository do; the handler of \<open>getByUserId\<close> never calls
  \<open>getAuthUserId\<close>, so the caller does not occur in its body.
\<close>

definition getCurrentProfile :: "db \<Rightarrow> ident option \<Rightarrow> error + userProfile option" where
  "getCurrentProfile d auth =
     (case auth of
        None \<Rightarrow> Inr None
      | Some uid \<Rightarrow> Inr (find (\<lambda>p. up_userId p = uid) (userProfiles d)))"

definition getByUserId :: "db \<Rightarrow> ident option \<Rightarrow> ident \<Rightarrow> error + userProfile option" where
  "getByUserId d auth uid = Inr (find (\<lambda>p. up_userId p = uid) (userProfiles d))"

section \<open>The figures as the specification words them\<close>

text \<open>
  Second definitions, written from the specification and compared with the code's
  below: the sum of an optional field over a list of entries with an absent value
  counted as 0, and the weighted production factor of a date, the sum of
  \<open>entryPF * forecastHours\<close> over the sum of \<open>forecastHours\<close>, both taken over the entries of
  the date whose forecast quantity and forecast hours are positive, and 0 when that sum
  of weights is 0.
\<close>

definition sum_field :: "(dailyEntry \<Rightarrow> rat option) \<Rightarrow> dailyEntry list \<Rightarrow> rat" where
  "sum_field f es = sum_list (map (\<lambda>e. case f e of None \<Rightarrow> 0 | Some v \<Rightarrow> v) es)"

definition weighted_entries :: "string \<Rightarrow> dailyEntry list \<Rightarrow> dailyEntry list" where
  "weighted_entries dt es =
     filter (\<lambda>e. date e = dt \<and>
                 (case forecastQuantity e of None \<Rightarrow> False | Some q \<Rightarrow> q > 0) \<and>
                 (case forecastHours e of None \<Rightarrow> False | Some h \<Rightarrow> h > 0)) es"

definition entryPF :: "dailyEntry \<Rightarrow> rat" where
  "entryPF e =
     (case actualQuantity e of None \<Rightarrow> 0 | Some a \<Rightarrow> a) /
     (case forecastQuantity e of None \<Rightarrow> 0 | Some q \<Rightarrow> q)"

definition weighted_pf :: "string \<Rightarrow> dailyEntry list \<Rightarrow> rat" where
  "weighted_pf dt es =
     (let ws = weighted_entries dt es;
          weight = sum_field forecastHours ws
      in if weight = 0 then 0
         else sum_list (map (\<lambda>e. entryPF e * (case forecastHours e of None \<Rightarrow> 0 | Some h \<Rightarrow> h)) ws)
                / weight)"


text \<open>
  The totals of one date over a list of entries, as sums, and the distinct values of a
  list in the order of their first occurrence (the order in which a loop meets new keys).
\<close>

definition date_agg :: "string \<Rightarrow> dailyEntry list \<Rightarrow> dateTotals" where
  "date_agg dt es =
     \<lparr> bd_totalForecast = sum_field forecastQuantity (filter (\<lambda>e. date e = dt) es),
       bd_totalActual = sum_field actualQuantity (filter (\<lambda>e. date e = dt) es),
       bd_forecastHours = sum_field forecastHours (filter (\<lambda>e. date e = dt) es),
       bd_actualHours = sum_field actualHours (filter (\<lambda>e. date e = dt) es),
       weightedPFSum =
         sum_list (map (\<lambda>e. entryPF e * (case forecastHours e of None \<Rightarrow> 0 | Some h \<Rightarrow> h))
                     (weighted_entries dt es)),
       weightSum = sum_field forecastHours (weighted_entries dt es) \<rparr>"

definition first_seen :: "'a list \<Rightarrow> 'a list" where
  "first_seen xs = rev (remdups (rev xs))"

text \<open>The dictionary that holds \<open>f k\<close> under each key \<open>k\<close> of a list of keys.\<close>

definition tabulate_dict :: "(string \<Rightarrow> 'v) \<Rightarrow> string list \<Rightarrow> 'v dict" where
  "tabulate_dict f ks = map (\<lambda>k. (k, f k)) ks"


definition rounded_ratios :: "'a leaderboardRow_scheme \<Rightarrow> bool" where
  "rounded_ratios r =
     (lb_productionRate r =
        Math_round ((if lb_totalActualHours r > 0
                     then lb_totalActualQuantity r / lb_totalActualHours r else 0) * 100) / 100 \<and>
      lb_productionFactor r =
        Math_round ((if lb_totalForecastQuantity r > 0
                     then lb_totalActualQuantity r / lb_totalForecastQuantity r else 0) * 100) / 100 \<and>
      lb_variancePercent r =
        Math_round ((if lb_totalForecastQuantity r > 0
                     then (lb_totalActualQuantity r - lb_totalForecastQuantity r)
                            / lb_totalForecastQuantity r * 100
                     else 0) * 10) / 10)"

definition rounded_breakdown :: "'a breakdownRow_scheme \<Rightarrow> bool" where
  "rounded_breakdown r =
     (br_productionFactor r =
        Math_round ((if br_totalForecastQuantity r > 0
                     then br_totalActualQuantity r / br_totalForecastQuantity r else 0) * 100) / 100 \<and>
      br_variancePercent r =
        Math_round ((if br_totalForecastQuantity r > 0
                     then (br_totalActualQuantity r - br_totalForecastQuantity r)
                            / br_totalForecastQuantity r * 100
                     else 0) * 10) / 10)"





section \<open>A small store and calls, for instances of the theorems\<close>

text \<open>
  Two projects with one scope each, four activities in P1 and one in P2; Carol is
  control center, Max a construction manager assigned to P1 only, and the user \<open>u:new\<close>
  has no profile.
\<close>

definition demo_db :: db where
  "demo_db =
     \<lparr> userProfiles =
         [\<lparr> up_userId = ''u:carol'', up_name = ''Carol'', up_role = control_center \<rparr>,
          \<lparr> up_userId = ''u:max'', up_name = ''Max'', up_role = construction_manager \<rparr>],
       projectAssignments = [\<lparr> pa_userId = ''u:max'', pa_projectId = ''P1'' \<rparr>],
       scopeAssignments = [],
       projects =
         [\<lparr> pr_id = ''P1'', pr_name = ''Plant'', pr_status = active \<rparr>,
          \<lparr> pr_id = ''P2'', pr_name = ''Depot'', pr_status = on_hold \<rparr>],
       scopes =
         [\<lparr> sc_id = ''S1'', sc_projectId = ''P1'', sc_name = ''Electrical'' \<rparr>,
          \<lparr> sc_id = ''S2'', sc_projectId = ''P2'', sc_name = ''Civil'' \<rparr>],
       activities =
         [\<lparr> ac_id = ''A1'', ac_scopeId = ''S1'', ac_projectId = ''P1'',
            ac_name = ''Cable pull'', ac_unit = ''linear feet'' \<rparr>,
          \<lparr> ac_id = ''A2'', ac_scopeId = ''S2'', ac_projectId = ''P2'',
            ac_name = ''Excavation'', ac_unit = ''cubic yards'' \<rparr>,
          \<lparr> ac_id = ''A3'', ac_scopeId = ''S1'', ac_projectId = ''P1'',
            ac_name = ''Conduit'', ac_unit = ''linear feet'' \<rparr>,
          \<lparr> ac_id = ''A4'', ac_scopeId = ''S1'', ac_projectId = ''P1'',
            ac_name = ''Panels'', ac_unit = ''units'' \<rparr>,
          \<lparr> ac_id = ''A5'', ac_scopeId = ''S1'', ac_projectId = ''P1'',
            ac_name = ''Fixtures'', ac_unit = ''units'' \<rparr>],
       dailyEntries = [],
       nextEntryId = 0 \<rparr>"

definition demo_forecast :: forecastArgs where
  "demo_forecast =
     \<lparr> fa_activityId = ''A1'', fa_date = ''2024-06-01'', fa_forecastQuantity = 100,
       fa_forecastCrewSize = 5, fa_forecastHoursPerWorker = 8, fa_notes = Some ''dry run'' \<rparr>"

definition demo_actuals :: actualsArgs where
  "demo_actuals =
     \<lparr> aa_activityId = ''A1'', aa_date = ''2024-06-01'', aa_actualQuantity = 90,
       aa_actualCrewSize = 5, aa_actualHoursPerWorker = 8, aa_notes = None \<rparr>"

text \<open>A \<open>submitEntry\<close> call that supplies the actuals only.\<close>

definition demo_entry :: entryArgs where
  "demo_entry =
     \<lparr> ea_activityId = ''A1'', ea_date = ''2024-06-01'',
       ea_forecastQuantity = None, ea_forecastCrewSize = None,
       ea_forecastHoursPerWorker = None,
       ea_actualQuantity = Some 90, ea_actualCrewSize = Some 5,
       ea_actualHoursPerWorker = Some 8, ea_notes = None \<rparr>"

definition demo_calls :: "call list" where
  "demo_calls =
     [SubmitForecast (Some ''u:max'') 1 demo_forecast,
      SubmitActuals (Some ''u:max'') 2 demo_actuals,
      SubmitEntry (Some ''u:new'') 3 demo_entry]"

text \<open>
  Daily entries of project P1 for the aggregations: on 2024-06-02 the two entries of the
  weighted-trend example (forecast 100, actual 110, forecast hours 50; forecast 200,
  actual 180, forecast hours 100) and one of Bob's with Max's production factor; on
  2024-06-01 an entry with no foreman name and no forecast.
\<close>

definition mk_entry ::
  "nat \<Rightarrow> ident \<Rightarrow> string \<Rightarrow> string option \<Rightarrow> rat option \<Rightarrow> rat option \<Rightarrow> rat option
     \<Rightarrow> rat option \<Rightarrow> dailyEntry" where
  "mk_entry i aid dt fm fq fh aq ah =
     \<lparr> entry_id = i, activityId = aid, scopeId = ''S1'', projectId = ''P1'', date = dt,
       userId = ''u:max'', foremanName = fm,
       forecastQuantity = fq, forecastCrewSize = None, forecastHoursPerWorker = None,
       forecastHours = fh,
       actualQuantity = aq, actualCrewSize = None, actualHoursPerWorker = None,
       actualHours = ah,
       entryNotes = None, createdBy = None, createdAt = None,
       updatedBy = None, updatedAt = None \<rparr>"

definition trend_db :: db where
  "trend_db = demo_db
     \<lparr> dailyEntries :=
         [mk_entry 0 ''A1'' ''2024-06-02'' (Some ''Max'') (Some 100) (Some 50) (Some 110) (Some 55),
          mk_entry 1 ''A3'' ''2024-06-02'' (Some ''Ann'') (Some 200) (Some 100) (Some 180) (Some 90),
          mk_entry 2 ''A1'' ''2024-06-01'' None None None (Some 30) (Some 10)],
       nextEntryId := 3 \<rparr>"



section \<open>Properties of the access-control gate\<close>

lemma find_Some_set: "find P xs = Some x \<Longrightarrow> x \<in> set xs \<and> P x"
  by (induction xs) (auto split: if_splits)

text \<open>
  C1. The gate allows a user who has no profile record; it allows a user whose (first)
  profile has the role control center; for any other profile it allows exactly when a
  project assignment for (user, project) exists.
\<close>

theorem checkProjectAccess_gate:
  "(\<not> (\<exists>pr\<in>set (userProfiles d). up_userId pr = u) \<longrightarrow> checkProjectAccess d u p) \<and>
   (\<forall>profile. first_profile d u = Some profile \<longrightarrow> up_role profile = control_center
        \<longrightarrow> checkProjectAccess d u p) \<and>
   (\<forall>profile. first_profile d u = Some profile \<longrightarrow> up_role profile \<noteq> control_center
        \<longrightarrow> (checkProjectAccess d u p \<longleftrightarrow>
             (\<exists>a\<in>set (projectAssignments d). pa_userId a = u \<and> pa_projectId a = p)))"
proof (intro conjI allI impI)
  assume "\<not> (\<exists>pr\<in>set (userProfiles d). up_userId pr = u)"
  then have "find (\<lambda>p. up_userId p = u) (userProfiles d) = None"
    by (simp add: find_None_iff)
  then show "checkProjectAccess d u p"
    by (simp add: checkProjectAccess_def)
next
  fix profile
  assume "first_profile d u = Some profile" "up_role profile = control_center"
  then show "checkProjectAccess d u p"
    by (simp add: checkProjectAccess_def first_profile_def)
next
  fix profile
  assume "first_profile d u = Some profile" "up_role profile \<noteq> control_center"
  then show "checkProjectAccess d u p \<longleftrightarrow>
      (\<exists>a\<in>set (projectAssignments d). pa_userId a = u \<and> pa_projectId a = p)"
    by (auto simp: checkProjectAccess_def first_profile_def find_None_iff
        split: option.splits dest: find_Some_set)
qed


theorem checkProjectAccess_gate_witness:
  "checkProjectAccess demo_db ''u:new'' ''P2'' \<and>
   checkProjectAccess demo_db ''u:carol'' ''P2'' \<and>
   checkProjectAccess demo_db ''u:max'' ''P1'' \<and>
   \<not> checkProjectAccess demo_db ''u:max'' ''P2''"
proof -
  have none: "\<not> (\<exists>pr\<in>set (userProfiles demo_db). up_userId pr = ''u:new'')"
    by (simp add: demo_db_def)
  have carol: "first_profile demo_db ''u:carol'' =
      Some \<lparr> up_userId = ''u:carol'', up_name = ''Carol'', up_role = control_center \<rparr>"
    by (simp add: demo_db_def first_profile_def)
  have max: "first_profile demo_db ''u:max'' =
      Some \<lparr> up_userId = ''u:max'', up_name = ''Max'', up_role = construction_manager \<rparr>"
    by (simp add: demo_db_def first_profile_def)
  have a1: "\<exists>a\<in>set (projectAssignments demo_db). pa_userId a = ''u:max'' \<and> pa_projectId a = ''P1''"
    by (simp add: demo_db_def)
  have a2: "\<not> (\<exists>a\<in>set (projectAssignments demo_db). pa_userId a = ''u:max'' \<and> pa_projectId a = ''P2'')"
    by (simp add: demo_db_def)
  from checkProjectAccess_gate[of demo_db "''u:new''" "''P2''"] none
  have "checkProjectAccess demo_db ''u:new'' ''P2''" by blast
  moreover from checkProjectAccess_gate[of demo_db "''u:carol''" "''P2''"] carol
  have "checkProjectAccess demo_db ''u:carol'' ''P2''" by simp
  moreover from checkProjectAccess_gate[of demo_db "''u:max''" "''P1''"] max a1
  have "checkProjectAccess demo_db ''u:max'' ''P1''" by simp
  moreover from checkProjectAccess_gate[of demo_db "''u:max''" "''P2''"] max a2
  have "\<not> checkProjectAccess demo_db ''u:max'' ''P2''" by simp
  ultimately show ?thesis by simp
qed

section \<open>Properties of the entry recorder\<close>

lemma apply_patch_keys [simp]:
  "activityId (apply_patch p e) = activityId e"
  "date (apply_patch p e) = date e"
  "entry_id (apply_patch p e) = entry_id e"
  by (simp_all add: apply_patch_def)

lemma entries_for_patch:
  "entries_for (db_patch d i p) a dt =
     map (\<lambda>e. if entry_id e = i then apply_patch p e else e) (entries_for d a dt)"
  unfolding entries_for_def db_patch_def
  by (simp add: filter_map o_def if_distrib cong: if_cong)

lemma entries_for_insert:
  "entries_for (snd (db_insert d e)) a dt =
     entries_for d a dt @ (if activityId e = a \<and> date e = dt then [e\<lparr>entry_id := nextEntryId d\<rparr>] else [])"
  by (simp add: entries_for_def db_insert_def)

lemma first_None_entries_for:
  "first_by_activity_and_date d a dt = None \<Longrightarrow> entries_for d a dt = []"
  by (auto simp: first_by_activity_and_date_def entries_for_def find_None_iff filter_empty_conv)

lemma first_after_patch:
  assumes "first_by_activity_and_date d a dt = Some existing"
  shows "first_by_activity_and_date (db_patch d (entry_id existing) p) a dt
           = Some (apply_patch p existing)"
proof -
  have gen: "find (\<lambda>e. activityId e = a \<and> date e = dt) xs = Some existing \<Longrightarrow>
      find (\<lambda>e. activityId e = a \<and> date e = dt)
        (map (\<lambda>e. if entry_id e = entry_id existing then apply_patch p e else e) xs)
      = Some (apply_patch p existing)" for xs
    by (induction xs) (auto split: if_splits)
  show ?thesis
    using assms gen[of "dailyEntries d"]
    by (simp add: first_by_activity_and_date_def db_patch_def)
qed

lemma first_after_insert:
  assumes "first_by_activity_and_date d a dt = None" "activityId e = a" "date e = dt"
  shows "first_by_activity_and_date (snd (db_insert d e)) a dt
           = Some (e\<lparr>entry_id := nextEntryId d\<rparr>)"
proof -
  have gen: "find P xs = None \<Longrightarrow> P y \<Longrightarrow> find P (xs @ [y]) = Some y" for P xs and y :: dailyEntry
    by (induction xs) (auto split: if_splits)
  show ?thesis
    using assms
    by (simp add: first_by_activity_and_date_def db_insert_def gen)
qed

lemma patch_keeps_count: "length (entries_for (db_patch d i p) a dt) = length (entries_for d a dt)"
  by (simp add: entries_for_patch)

lemma insert_count:
  assumes "first_by_activity_and_date d (activityId e) (date e) = None"
    and "length (entries_for d a dt) \<le> 1"
  shows "length (entries_for (snd (db_insert d e)) a dt) \<le> 1"
proof (cases "activityId e = a \<and> date e = dt")
  case True
  with assms(1) have "entries_for d a dt = []"
    by (auto dest: first_None_entries_for)
  then show ?thesis using True by (simp add: entries_for_insert)
next
  case False
  then show ?thesis using assms(2) by (auto simp add: entries_for_insert)
qed

lemma forecast_doc_keys [simp]:
  "activityId (forecast_doc act uid now fm args) = fa_activityId args"
  "date (forecast_doc act uid now fm args) = fa_date args"
  by (simp_all add: forecast_doc_def)

lemma actuals_doc_keys [simp]:
  "activityId (actuals_doc act uid now fm args) = aa_activityId args"
  "date (actuals_doc act uid now fm args) = aa_date args"
  by (simp_all add: actuals_doc_def)

lemma entry_doc_keys [simp]:
  "activityId (entry_doc act uid now fm args) = ea_activityId args"
  "date (entry_doc act uid now fm args) = ea_date args"
  by (simp_all add: entry_doc_def)

lemma submitForecast_cases:
  assumes "submitForecast d auth now args = Inr (i, d')"
  obtains (patched) uid act existing where
      "auth = Some uid" "get_activity d (fa_activityId args) = Some act"
      "first_by_activity_and_date d (fa_activityId args) (fa_date args) = Some existing"
      "i = entry_id existing"
      "d' = db_patch d (entry_id existing)
              (forecast_patch uid now (resolve_foreman d act uid) args existing)"
  | (inserted) uid act where
      "auth = Some uid" "get_activity d (fa_activityId args) = Some act"
      "first_by_activity_and_date d (fa_activityId args) (fa_date args) = None"
      "(i, d') = db_insert d (forecast_doc act uid now (resolve_foreman d act uid) args)"
  using assms unfolding submitForecast_def
  by (auto split: option.splits if_splits)

lemma submitActuals_cases:
  assumes "submitActuals d auth now args = Inr (i, d')"
  obtains (patched) uid act existing where
      "auth = Some uid" "get_activity d (aa_activityId args) = Some act"
      "first_by_activity_and_date d (aa_activityId args) (aa_date args) = Some existing"
      "i = entry_id existing"
      "d' = db_patch d (entry_id existing)
              (actuals_patch uid now (resolve_foreman d act uid) args existing)"
  | (inserted) uid act where
      "auth = Some uid" "get_activity d (aa_activityId args) = Some act"
      "first_by_activity_and_date d (aa_activityId args) (aa_date args) = None"
      "(i, d') = db_insert d (actuals_doc act uid now (resolve_foreman d act uid) args)"
  using assms unfolding submitActuals_def
  by (auto split: option.splits if_splits)

lemma submitEntry_cases:
  assumes "submitEntry d auth now args = Inr (i, d')"
  obtains (patched) uid act existing where
      "auth = Some uid" "get_activity d (ea_activityId args) = Some act"
      "first_by_activity_and_date d (ea_activityId args) (ea_date args) = Some existing"
      "i = entry_id existing"
      "d' = db_patch d (entry_id existing)
              (entry_patch uid now (resolve_foreman d act uid) args)"
  | (inserted) uid act where
      "auth = Some uid" "get_activity d (ea_activityId args) = Some act"
      "first_by_activity_and_date d (ea_activityId args) (ea_date args) = None"
      "(i, d') = db_insert d (entry_doc act uid now (resolve_foreman d act uid) args)"
  using assms unfolding submitEntry_def
  by (auto split: option.splits if_splits)

lemma submitForecast_count:
  assumes "submitForecast d auth now args = Inr (i, d')" "length (entries_for d a dt) \<le> 1"
  shows "length (entries_for d' a dt) \<le> 1"
  using assms(1)
proof (cases rule: submitForecast_cases)
  case (patched uid act existing)
  then show ?thesis using assms(2) by (simp add: patch_keeps_count)
next
  case (inserted uid act)
  from inserted(4) have "d' = snd (db_insert d (forecast_doc act uid now (resolve_foreman d act uid) args))"
    by (metis snd_conv)
  then show ?thesis using insert_count[of d "forecast_doc act uid now (resolve_foreman d act uid) args" a dt]
      inserted(3) assms(2) by simp
qed

lemma submitActuals_count:
  assumes "submitActuals d auth now args = Inr (i, d')" "length (entries_for d a dt) \<le> 1"
  shows "length (entries_for d' a dt) \<le> 1"
  using assms(1)
proof (cases rule: submitActuals_cases)
  case (patched uid act existing)
  then show ?thesis using assms(2) by (simp add: patch_keeps_count)
next
  case (inserted uid act)
  from inserted(4) have "d' = snd (db_insert d (actuals_doc act uid now (resolve_foreman d act uid) args))"
    by (metis snd_conv)
  then show ?thesis using insert_count[of d "actuals_doc act uid now (resolve_foreman d act uid) args" a dt]
      inserted(3) assms(2) by simp
qed

lemma submitEntry_count:
  assumes "submitEntry d auth now args = Inr (i, d')" "length (entries_for d a dt) \<le> 1"
  shows "length (entries_for d' a dt) \<le> 1"
  using assms(1)
proof (cases rule: submitEntry_cases)
  case (patched uid act existing)
  then show ?thesis using assms(2) by (simp add: patch_keeps_count)
next
  case (inserted uid act)
  from inserted(4) have "d' = snd (db_insert d (entry_doc act uid now (resolve_foreman d act uid) args))"
    by (metis snd_conv)
  then show ?thesis using insert_count[of d "entry_doc act uid now (resolve_foreman d act uid) args" a dt]
      inserted(3) assms(2) by simp
qed

lemma exec_call_count:
  assumes "exec_call d c = Inr (i, d')" "length (entries_for d a dt) \<le> 1"
  shows "length (entries_for d' a dt) \<le> 1"
  using assms
  by (cases c) (auto dest: submitForecast_count submitActuals_count submitEntry_count)

lemma apply_forecast_patch [simp]:
  "forecastQuantity (apply_patch (forecast_patch uid now fm args ex) e) = Some (fa_forecastQuantity args)"
  "forecastCrewSize (apply_patch (forecast_patch uid now fm args ex) e) = Some (fa_forecastCrewSize args)"
  "forecastHoursPerWorker (apply_patch (forecast_patch uid now fm args ex) e) = Some (fa_forecastHoursPerWorker args)"
  "forecastHours (apply_patch (forecast_patch uid now fm args ex) e) = Some (fa_forecastCrewSize args * fa_forecastHoursPerWorker args)"
  "actualQuantity (apply_patch (forecast_patch uid now fm args ex) e) = actualQuantity e"
  "actualCrewSize (apply_patch (forecast_patch uid now fm args ex) e) = actualCrewSize e"
  "actualHoursPerWorker (apply_patch (forecast_patch uid now fm args ex) e) = actualHoursPerWorker e"
  "actualHours (apply_patch (forecast_patch uid now fm args ex) e) = actualHours e"
  "entryNotes (apply_patch (forecast_patch uid now fm args ex) e) = nullish_opt (fa_notes args) (entryNotes ex)"
  "foremanName (apply_patch (forecast_patch uid now fm args ex) e) = nullish_opt fm (foremanName ex)"
  by (simp_all add: apply_patch_def forecast_patch_def)

lemma apply_actuals_patch [simp]:
  "actualQuantity (apply_patch (actuals_patch uid now fm args ex) e) = Some (aa_actualQuantity args)"
  "actualCrewSize (apply_patch (actuals_patch uid now fm args ex) e) = Some (aa_actualCrewSize args)"
  "actualHoursPerWorker (apply_patch (actuals_patch uid now fm args ex) e) = Some (aa_actualHoursPerWorker args)"
  "actualHours (apply_patch (actuals_patch uid now fm args ex) e) = Some (aa_actualCrewSize args * aa_actualHoursPerWorker args)"
  "forecastQuantity (apply_patch (actuals_patch uid now fm args ex) e) = forecastQuantity e"
  "forecastCrewSize (apply_patch (actuals_patch uid now fm args ex) e) = forecastCrewSize e"
  "forecastHoursPerWorker (apply_patch (actuals_patch uid now fm args ex) e) = forecastHoursPerWorker e"
  "forecastHours (apply_patch (actuals_patch uid now fm args ex) e) = forecastHours e"
  "entryNotes (apply_patch (actuals_patch uid now fm args ex) e) = nullish_opt (aa_notes args) (entryNotes ex)"
  "foremanName (apply_patch (actuals_patch uid now fm args ex) e) = nullish_opt fm (foremanName ex)"
  by (simp_all add: apply_patch_def actuals_patch_def)

lemma apply_entry_patch [simp]:
  "forecastQuantity (apply_patch (entry_patch uid now fm args) e) = ea_forecastQuantity args"
  "forecastCrewSize (apply_patch (entry_patch uid now fm args) e) = ea_forecastCrewSize args"
  "forecastHoursPerWorker (apply_patch (entry_patch uid now fm args) e) = ea_forecastHoursPerWorker args"
  "forecastHours (apply_patch (entry_patch uid now fm args) e) = derived_hours (ea_forecastCrewSize args) (ea_forecastHoursPerWorker args)"
  "actualQuantity (apply_patch (entry_patch uid now fm args) e) = ea_actualQuantity args"
  "actualCrewSize (apply_patch (entry_patch uid now fm args) e) = ea_actualCrewSize args"
  "actualHoursPerWorker (apply_patch (entry_patch uid now fm args) e) = ea_actualHoursPerWorker args"
  "actualHours (apply_patch (entry_patch uid now fm args) e) = derived_hours (ea_actualCrewSize args) (ea_actualHoursPerWorker args)"
  "entryNotes (apply_patch (entry_patch uid now fm args) e) = ea_notes args"
  "foremanName (apply_patch (entry_patch uid now fm args) e) = fm"
  by (simp_all add: apply_patch_def entry_patch_def)

lemma insert_result:
  assumes "(i, d') = db_insert d e"
  shows "i = nextEntryId d" "d' = snd (db_insert d e)"
  using assms by (simp_all add: db_insert_def)


lemma submitForecast_stored:
  assumes "submitForecast d auth now args = Inr (i, d')"
  shows "\<exists>e. first_by_activity_and_date d' (fa_activityId args) (fa_date args) = Some e \<and>
             entry_id e = i \<and>
             forecastCrewSize e = Some (fa_forecastCrewSize args) \<and>
             forecastHoursPerWorker e = Some (fa_forecastHoursPerWorker args) \<and>
             forecastHours e = Some (fa_forecastCrewSize args * fa_forecastHoursPerWorker args)"
  using assms
proof (cases rule: submitForecast_cases)
  case (patched uid act existing)
  then show ?thesis by (simp add: first_after_patch)
next
  case (inserted uid act)
  note r = insert_result[OF inserted(4)]
  show ?thesis
    unfolding r using inserted(3)
    by (simp add: first_after_insert) (simp add: forecast_doc_def)
qed

lemma submitActuals_stored:
  assumes "submitActuals d auth now args = Inr (i, d')"
  shows "\<exists>e. first_by_activity_and_date d' (aa_activityId args) (aa_date args) = Some e \<and>
             entry_id e = i \<and>
             actualCrewSize e = Some (aa_actualCrewSize args) \<and>
             actualHoursPerWorker e = Some (aa_actualHoursPerWorker args) \<and>
             actualHours e = Some (aa_actualCrewSize args * aa_actualHoursPerWorker args)"
  using assms
proof (cases rule: submitActuals_cases)
  case (patched uid act existing)
  then show ?thesis by (simp add: first_after_patch)
next
  case (inserted uid act)
  note r = insert_result[OF inserted(4)]
  show ?thesis
    unfolding r using inserted(3)
    by (simp add: first_after_insert) (simp add: actuals_doc_def)
qed

lemma submitEntry_stored:
  assumes "submitEntry d auth now args = Inr (i, d')"
  shows "\<exists>e. first_by_activity_and_date d' (ea_activityId args) (ea_date args) = Some e \<and>
             entry_id e = i \<and>
             forecastHours e =
               derived_hours (ea_forecastCrewSize args) (ea_forecastHoursPerWorker args) \<and>
             actualHours e =
               derived_hours (ea_actualCrewSize args) (ea_actualHoursPerWorker args)"
  using assms
proof (cases rule: submitEntry_cases)
  case (patched uid act existing)
  then show ?thesis by (simp add: first_after_patch)
next
  case (inserted uid act)
  note r = insert_result[OF inserted(4)]
  show ?thesis
    unfolding r using inserted(3)
    by (simp add: first_after_insert) (simp add: entry_doc_def)
qed

lemma no_profile_access:
  assumes "\<forall>pr\<in>set (userProfiles d). up_userId pr \<noteq> u"
  shows "checkProjectAccess d u p"
proof -
  from assms have "find (\<lambda>p. up_userId p = u) (userProfiles d) = None"
    by (simp add: find_None_iff)
  then show ?thesis by (simp add: checkProjectAccess_def)
qed

lemma submitForecast_succeeds:
  assumes "get_activity d (fa_activityId args) = Some act" "checkProjectAccess d u (ac_projectId act)"
  shows "\<exists>i d'. submitForecast d (Some u) now args = Inr (i, d')"
  using assms by (cases "db_insert d (forecast_doc act u now (resolve_foreman d act u) args)")
    (simp add: submitForecast_def split: option.splits)

lemma submitActuals_succeeds:
  assumes "get_activity d (aa_activityId args) = Some act" "checkProjectAccess d u (ac_projectId act)"
  shows "\<exists>i d'. submitActuals d (Some u) now args = Inr (i, d')"
  using assms by (cases "db_insert d (actuals_doc act u now (resolve_foreman d act u) args)")
    (simp add: submitActuals_def split: option.splits)

lemma submitEntry_succeeds:
  assumes "get_activity d (ea_activityId args) = Some act" "checkProjectAccess d u (ac_projectId act)"
  shows "\<exists>i d'. submitEntry d (Some u) now args = Inr (i, d')"
  using assms by (cases "db_insert d (entry_doc act u now (resolve_foreman d act u) args)")
    (simp add: submitEntry_def split: option.splits)

text \<open>
  C2. Starting from a store with at most one daily entry for an (activity, date) pair,
  any sequence of successful \<open>submitForecast\<close>, \<open>submitActuals\<close> and \<open>submitEntry\<close>
  calls run one after the other leaves at most one daily entry for that pair.
\<close>

theorem upsert_keeps_at_most_one:
  assumes "run_calls d cs = Inr d'" and "length (entries_for d a dt) \<le> 1"
  shows "length (entries_for d' a dt) \<le> 1"
  using assms
proof (induction cs arbitrary: d)
  case Nil
  then show ?case by simp
next
  case (Cons c cs)
  from Cons.prems(1) obtain i d1 where step: "exec_call d c = Inr (i, d1)"
    and rest: "run_calls d1 cs = Inr d'"
    by (auto split: sum.splits)
  from exec_call_count[OF step Cons.prems(2)] have "length (entries_for d1 a dt) \<le> 1" .
  with Cons.IH[OF rest] show ?case .
qed
theorem upsert_keeps_at_most_one_witness:
  "\<exists>d'. run_calls demo_db demo_calls = Inr d' \<and>
         length (entries_for d' ''A1'' ''2024-06-01'') \<le> 1"
proof -
  have start: "length (entries_for demo_db ''A1'' ''2024-06-01'') \<le> 1"
    by (simp add: entries_for_def demo_db_def)
  have "\<exists>d'. run_calls demo_db demo_calls = Inr d'"
    by (simp add: demo_calls_def demo_db_def demo_forecast_def demo_actuals_def demo_entry_def
        submitForecast_def submitActuals_def submitEntry_def get_activity_def
        checkProjectAccess_def first_by_activity_and_date_def db_insert_def db_patch_def)
  then obtain d' where run: "run_calls demo_db demo_calls = Inr d'" ..
  from upsert_keeps_at_most_one[OF run start] run show ?thesis by blast
qed

text \<open>
  The sibling mutations keep what they do not supply: \<open>submitActuals\<close> on an existing
  entry leaves the four forecast fields as stored, \<open>submitForecast\<close> the four actual
  fields, and both keep the stored notes and the stored foreman name when they have none
  to write.
\<close>

lemma submitActuals_frame:
  assumes "first_by_activity_and_date d (aa_activityId args) (aa_date args) = Some existing"
    and "submitActuals d auth now args = Inr (i, d')"
  shows "\<exists>e. first_by_activity_and_date d' (aa_activityId args) (aa_date args) = Some e \<and>
             forecastQuantity e = forecastQuantity existing \<and>
             forecastCrewSize e = forecastCrewSize existing \<and>
             forecastHoursPerWorker e = forecastHoursPerWorker existing \<and>
             forecastHours e = forecastHours existing \<and>
             entryNotes e = nullish_opt (aa_notes args) (entryNotes existing) \<and>
             (\<exists>uid act. auth = Some uid \<and> get_activity d (aa_activityId args) = Some act \<and>
                foremanName e = nullish_opt (resolve_foreman d act uid) (foremanName existing))"
  using assms(2)
proof (cases rule: submitActuals_cases)
  case (patched uid act ex)
  with assms(1) have "ex = existing" by simp
  with patched show ?thesis by (simp add: first_after_patch)
next
  case (inserted uid act)
  with assms(1) show ?thesis by simp
qed

lemma submitForecast_frame:
  assumes "first_by_activity_and_date d (fa_activityId args) (fa_date args) = Some existing"
    and "submitForecast d auth now args = Inr (i, d')"
  shows "\<exists>e. first_by_activity_and_date d' (fa_activityId args) (fa_date args) = Some e \<and>
             actualQuantity e = actualQuantity existing \<and>
             actualCrewSize e = actualCrewSize existing \<and>
             actualHoursPerWorker e = actualHoursPerWorker existing \<and>
             actualHours e = actualHours existing \<and>
             entryNotes e = nullish_opt (fa_notes args) (entryNotes existing) \<and>
             (\<exists>uid act. auth = Some uid \<and> get_activity d (fa_activityId args) = Some act \<and>
                foremanName e = nullish_opt (resolve_foreman d act uid) (foremanName existing))"
  using assms(2)
proof (cases rule: submitForecast_cases)
  case (patched uid act ex)
  with assms(1) have "ex = existing" by simp
  with patched show ?thesis by (simp add: first_after_patch)
next
  case (inserted uid act)
  with assms(1) show ?thesis by simp
qed

text \<open>
  \<open>submitEntry\<close> does not: on an existing entry every one of the ten data fields ends
  as the call gave it, so a field the call omits is removed.
\<close>

lemma submitEntry_overwrites:
  assumes "first_by_activity_and_date d (ea_activityId args) (ea_date args) = Some existing"
    and "submitEntry d auth now args = Inr (i, d')"
  shows "\<exists>e. first_by_activity_and_date d' (ea_activityId args) (ea_date args) = Some e \<and>
             forecastQuantity e = ea_forecastQuantity args \<and>
             forecastCrewSize e = ea_forecastCrewSize args \<and>
             forecastHoursPerWorker e = ea_forecastHoursPerWorker args \<and>
             actualQuantity e = ea_actualQuantity args \<and>
             actualCrewSize e = ea_actualCrewSize args \<and>
             actualHoursPerWorker e = ea_actualHoursPerWorker args \<and>
             entryNotes e = ea_notes args"
  using assms(2)
proof (cases rule: submitEntry_cases)
  case (patched uid act ex)
  then show ?thesis by (simp add: first_after_patch)
next
  case (inserted uid act)
  with assms(1) show ?thesis by simp
qed

text \<open>
  C3, at a concrete store. Max submits the forecast (100 units, 5 workers, 8 hours each,
  with a note); the entry holds it. A \<open>submitEntry\<close> call for the same activity and date
  that supplies the actuals only then leaves the entry without its forecast quantity,
  crew size, hours per worker, forecast hours and note.
\<close>

theorem submitEntry_removes_omitted_fields:
  "(\<exists>d1. run_calls demo_db [SubmitForecast (Some ''u:max'') 1 demo_forecast] = Inr d1 \<and>
      map (\<lambda>e. (forecastQuantity e, forecastCrewSize e, forecastHoursPerWorker e,
                 forecastHours e, entryNotes e)) (dailyEntries d1)
        = [(Some 100, Some 5, Some 8, Some 40, Some ''dry run'')]) \<and>
   (\<exists>d2. run_calls demo_db [SubmitForecast (Some ''u:max'') 1 demo_forecast,
                            SubmitEntry (Some ''u:max'') 2 demo_entry] = Inr d2 \<and>
      map (\<lambda>e. (forecastQuantity e, forecastCrewSize e, forecastHoursPerWorker e,
                 forecastHours e, entryNotes e)) (dailyEntries d2)
        = [(None, None, None, None, None)] \<and>
      map actualQuantity (dailyEntries d2) = [Some 90])"
  by (simp add: demo_db_def demo_forecast_def demo_entry_def
      submitForecast_def submitEntry_def get_activity_def checkProjectAccess_def
      first_by_activity_and_date_def db_insert_def db_patch_def
      forecast_doc_def entry_patch_def apply_patch_def derived_hours_def truthy_num_def)



text \<open>
  C10. For an authenticated user with no profile record, \<open>submitForecast\<close>,
  \<open>submitActuals\<close> and \<open>submitEntry\<close> succeed on every existing activity, whatever its
  project: none of them fails with access denied (or otherwise), and afterwards the
  entry of the pair is stored.
\<close>

theorem unprofiled_user_writes_everywhere:
  assumes "\<forall>pr\<in>set (userProfiles d). up_userId pr \<noteq> u"
  shows "(get_activity d (fa_activityId fargs) \<noteq> None \<longrightarrow>
            (\<exists>i d'. submitForecast d (Some u) now fargs = Inr (i, d') \<and>
                first_by_activity_and_date d' (fa_activityId fargs) (fa_date fargs) \<noteq> None)) \<and>
         (get_activity d (aa_activityId aargs) \<noteq> None \<longrightarrow>
            (\<exists>i d'. submitActuals d (Some u) now aargs = Inr (i, d') \<and>
                first_by_activity_and_date d' (aa_activityId aargs) (aa_date aargs) \<noteq> None)) \<and>
         (get_activity d (ea_activityId eargs) \<noteq> None \<longrightarrow>
            (\<exists>i d'. submitEntry d (Some u) now eargs = Inr (i, d') \<and>
                first_by_activity_and_date d' (ea_activityId eargs) (ea_date eargs) \<noteq> None))"
proof (intro conjI impI)
  assume "get_activity d (fa_activityId fargs) \<noteq> None"
  then obtain act where "get_activity d (fa_activityId fargs) = Some act" by auto
  from submitForecast_succeeds[OF this no_profile_access[OF assms]]
  obtain i d' where r: "submitForecast d (Some u) now fargs = Inr (i, d')" by blast
  from submitForecast_stored[OF r] r
  show "\<exists>i d'. submitForecast d (Some u) now fargs = Inr (i, d') \<and>
      first_by_activity_and_date d' (fa_activityId fargs) (fa_date fargs) \<noteq> None"
    by auto
next
  assume "get_activity d (aa_activityId aargs) \<noteq> None"
  then obtain act where "get_activity d (aa_activityId aargs) = Some act" by auto
  from submitActuals_succeeds[OF this no_profile_access[OF assms]]
  obtain i d' where r: "submitActuals d (Some u) now aargs = Inr (i, d')" by blast
  from submitActuals_stored[OF r] r
  show "\<exists>i d'. submitActuals d (Some u) now aargs = Inr (i, d') \<and>
      first_by_activity_and_date d' (aa_activityId aargs) (aa_date aargs) \<noteq> None"
    by auto
next
  assume "get_activity d (ea_activityId eargs) \<noteq> None"
  then obtain act where "get_activity d (ea_activityId eargs) = Some act" by auto
  from submitEntry_succeeds[OF this no_profile_access[OF assms]]
  obtain i d' where r: "submitEntry d (Some u) now eargs = Inr (i, d')" by blast
  from submitEntry_stored[OF r] r
  show "\<exists>i d'. submitEntry d (Some u) now eargs = Inr (i, d') \<and>
      first_by_activity_and_date d' (ea_activityId eargs) (ea_date eargs) \<noteq> None"
    by auto
qed

theorem unprofiled_user_writes_everywhere_witness:
  "(\<exists>i d'. submitForecast demo_db (Some ''u:new'') 7 (demo_forecast\<lparr>fa_activityId := ''A2''\<rparr>)
        = Inr (i, d') \<and> first_by_activity_and_date d' ''A2'' ''2024-06-01'' \<noteq> None) \<and>
   (\<exists>i d'. submitActuals demo_db (Some ''u:new'') 7 (demo_actuals\<lparr>aa_activityId := ''A2''\<rparr>)
        = Inr (i, d') \<and> first_by_activity_and_date d' ''A2'' ''2024-06-01'' \<noteq> None) \<and>
   (\<exists>i d'. submitEntry demo_db (Some ''u:new'') 7 (demo_entry\<lparr>ea_activityId := ''A2''\<rparr>)
        = Inr (i, d') \<and> first_by_activity_and_date d' ''A2'' ''2024-06-01'' \<noteq> None)"
proof -
  have none: "\<forall>pr\<in>set (userProfiles demo_db). up_userId pr \<noteq> ''u:new''"
    by (simp add: demo_db_def)
  have act: "get_activity demo_db ''A2'' \<noteq> None"
    by (simp add: get_activity_def demo_db_def)
  from unprofiled_user_writes_everywhere[OF none,
      of "demo_forecast\<lparr>fa_activityId := ''A2''\<rparr>" 7
         "demo_actuals\<lparr>aa_activityId := ''A2''\<rparr>"
         "demo_entry\<lparr>ea_activityId := ''A2''\<rparr>"] act
  show ?thesis
    by (simp add: demo_forecast_def demo_actuals_def demo_entry_def)
qed


section \<open>Properties of the aggregator\<close>

lemma bind_err_Inr [simp]: "bind_err (Inr x) f = f x"
  by (simp add: bind_err_def)

lemma bind_err_Inl [simp]: "bind_err (Inl e) f = Inl e"
  by (simp add: bind_err_def)

text \<open>The guard keeps every quotient away from a zero divisor.\<close>

lemma guarded_div_total: "guarded_div n d = Inr (if d > 0 then n / d else 0)"
  by (simp add: guarded_div_def js_div_def)





lemma getProjectKPIs_refused:
  "getProjectKPIs d None pid = Inr None"
  "\<not> checkProjectAccess d uid pid \<Longrightarrow> getProjectKPIs d (Some uid) pid = Inr None"
  by (simp_all add: getProjectKPIs_def)


lemma getScopeKPIs_refused:
  "getScopeKPIs d None sid = Inr None"
  "get_scope d sid = None \<Longrightarrow> getScopeKPIs d auth sid = Inr None"
  "get_scope d sid = Some sc \<Longrightarrow> \<not> checkProjectAccess d uid (sc_projectId sc)
     \<Longrightarrow> getScopeKPIs d (Some uid) sid = Inr None"
  by (simp_all add: getScopeKPIs_def split: option.splits)


lemma getActivityKPIs_refused:
  "getActivityKPIs d None aid = Inr None"
  "get_activity d aid = None \<Longrightarrow> getActivityKPIs d auth aid = Inr None"
  "get_activity d aid = Some act \<Longrightarrow> \<not> checkProjectAccess d uid (ac_projectId act)
     \<Longrightarrow> getActivityKPIs d (Some uid) aid = Inr None"
  by (simp_all add: getActivityKPIs_def split: option.splits)


lemma getAllProjectsKPIs_refused:
  "getAllProjectsKPIs d None = Inr None"
  "\<not> isControlCenter d uid \<Longrightarrow> getAllProjectsKPIs d (Some uid) = Inr None"
  by (simp_all add: getAllProjectsKPIs_def)










text \<open>No KPI query ends in a non-finite number.\<close>

lemma kpi_queries_finite:
  "\<exists>r. getProjectKPIs d auth pid = Inr r"
  "\<exists>r. getScopeKPIs d auth sid = Inr r"
  "\<exists>r. getActivityKPIs d auth aid = Inr r"
  "\<exists>r. getAllProjectsKPIs d auth = Inr r"
proof -
  show "\<exists>r. getProjectKPIs d auth pid = Inr r"
    by (cases auth) (simp_all add: getProjectKPIs_def Let_def guarded_div_total)
  show "\<exists>r. getScopeKPIs d auth sid = Inr r"
    by (cases auth; cases "get_scope d sid")
      (simp_all add: getScopeKPIs_def Let_def guarded_div_total)
  show "\<exists>r. getActivityKPIs d auth aid = Inr r"
    by (cases auth; cases "get_activity d aid")
      (simp_all add: getActivityKPIs_def Let_def guarded_div_total)
  show "\<exists>r. getAllProjectsKPIs d auth = Inr r"
    by (cases auth) (simp_all add: getAllProjectsKPIs_def Let_def guarded_div_total js_div_def)
qed







subsection \<open>Dictionaries built by a loop\<close>

lemma first_seen_snoc:
  "first_seen (xs @ [x]) = (if x \<in> set xs then first_seen xs else first_seen xs @ [x])"
  by (simp add: first_seen_def)

lemma first_seen_set [simp]: "set (first_seen xs) = set xs"
  by (simp add: first_seen_def)

lemma first_seen_distinct [simp]: "distinct (first_seen xs)"
  by (simp add: first_seen_def)

lemma first_seen_Nil [simp]: "first_seen [] = []"
  by (simp add: first_seen_def)

lemma map_of_tabulate:
  "map_of (tabulate_dict f ks) k = (if k \<in> set ks then Some (f k) else None)"
  unfolding tabulate_dict_def by (induction ks) auto

lemma tabulate_dict_cong:
  "(\<And>k. k \<in> set ks \<Longrightarrow> f k = g k) \<Longrightarrow> tabulate_dict f ks = tabulate_dict g ks"
  by (simp add: tabulate_dict_def)

lemma tabulate_dict_Nil [simp]: "tabulate_dict f [] = []"
  by (simp add: tabulate_dict_def)

lemma dict_init_tabulate:
  "dict_init (tabulate_dict f ks) k (f k) =
     (if k \<in> set ks then tabulate_dict f ks else tabulate_dict f (ks @ [k]))"
  by (simp add: dict_init_def map_of_tabulate) (simp add: tabulate_dict_def)

lemma dict_update_tabulate:
  "dict_update k g (tabulate_dict f ks) =
     tabulate_dict (\<lambda>k'. if k' = k then g (f k') else f k') ks"
  by (simp add: dict_update_def tabulate_dict_def o_def if_distrib cong: if_cong)

lemma foldl_err_snoc:
  "foldl_err f a (xs @ [x]) = bind_err (foldl_err f a xs) (\<lambda>b. f b x)"
proof (induction xs arbitrary: a)
  case Nil
  show ?case by (cases "f a x") simp_all
next
  case (Cons y ys)
  show ?case by (cases "f a y") (simp_all add: Cons.IH)
qed

lemma map_err_pure:
  assumes "\<And>x. x \<in> set xs \<Longrightarrow> f x = Inr (g x)"
  shows "map_err f xs = Inr (map g xs)"
  using assms by (induction xs) simp_all

lemma map_sort_key: "map f (sort_key f xs) = sort (map f xs)"
proof (induction xs)
  case Nil
  show ?case by simp
next
  case (Cons x xs)
  have ins: "map f (insort_key f x ys) = insort (f x) (map f ys)" for ys
    by (induction ys) simp_all
  show ?case by (simp add: ins Cons.IH)
qed

subsection \<open>The per-date loop of \<open>getTrendData\<close>\<close>

lemma sum_field_snoc:
  "sum_field f (es @ [e]) = sum_field f es + (case f e of None \<Rightarrow> 0 | Some v \<Rightarrow> v)"
  by (simp add: sum_field_def)

lemma sum_field_Nil [simp]: "sum_field f [] = 0"
  by (simp add: sum_field_def)

lemma date_agg_other:
  "k \<noteq> date x \<Longrightarrow> date_agg k (xs @ [x]) = date_agg k xs"
  by (simp add: date_agg_def weighted_entries_def)

lemma date_agg_unseen:
  "k \<notin> date ` set xs \<Longrightarrow> date_agg k xs = zero_dateTotals"
proof -
  assume "k \<notin> date ` set xs"
  then have "filter (\<lambda>e. date e = k) xs = []"
    by (auto simp: filter_empty_conv)
  moreover from \<open>k \<notin> date ` set xs\<close> have "weighted_entries k xs = []"
    by (auto simp: weighted_entries_def filter_empty_conv)
  ultimately show ?thesis
    by (simp add: date_agg_def zero_dateTotals_def)
qed

lemma date_agg_same_weighted:
  assumes "nullish (forecastQuantity x) 0 > 0" "nullish (forecastHours x) 0 > 0"
  shows "date_agg (date x) (xs @ [x]) =
     (date_agg (date x) xs)
       \<lparr> bd_totalForecast := bd_totalForecast (date_agg (date x) xs) + nullish (forecastQuantity x) 0,
         bd_totalActual := bd_totalActual (date_agg (date x) xs) + nullish (actualQuantity x) 0,
         bd_forecastHours := bd_forecastHours (date_agg (date x) xs) + nullish (forecastHours x) 0,
         bd_actualHours := bd_actualHours (date_agg (date x) xs) + nullish (actualHours x) 0,
         weightedPFSum := weightedPFSum (date_agg (date x) xs) +
            nullish (actualQuantity x) 0 / nullish (forecastQuantity x) 0
              * nullish (forecastHours x) 0,
         weightSum := weightSum (date_agg (date x) xs) + nullish (forecastHours x) 0 \<rparr>"
  using assms
  by (auto simp: date_agg_def weighted_entries_def sum_field_snoc entryPF_def nullish_def
      split: option.splits)

lemma date_agg_same_unweighted:
  assumes "\<not> (nullish (forecastQuantity x) 0 > 0 \<and> nullish (forecastHours x) 0 > 0)"
  shows "date_agg (date x) (xs @ [x]) =
     (date_agg (date x) xs)
       \<lparr> bd_totalForecast := bd_totalForecast (date_agg (date x) xs) + nullish (forecastQuantity x) 0,
         bd_totalActual := bd_totalActual (date_agg (date x) xs) + nullish (actualQuantity x) 0,
         bd_forecastHours := bd_forecastHours (date_agg (date x) xs) + nullish (forecastHours x) 0,
         bd_actualHours := bd_actualHours (date_agg (date x) xs) + nullish (actualHours x) 0 \<rparr>"
  using assms
  by (auto simp: date_agg_def weighted_entries_def sum_field_snoc entryPF_def nullish_def
      split: option.splits)

lemma trend_byDate1:
  "dict_init (tabulate_dict (\<lambda>k. date_agg k xs) (first_seen (map date xs))) (date x) zero_dateTotals
     = tabulate_dict (\<lambda>k. date_agg k xs) (first_seen (map date (xs @ [x])))"
proof (cases "date x \<in> date ` set xs")
  case True
  then have "date_agg (date x) xs = date_agg (date x) xs" by simp
  from True show ?thesis
    by (simp add: dict_init_def map_of_tabulate first_seen_snoc)
next
  case False
  then have z: "zero_dateTotals = date_agg (date x) xs"
    by (simp add: date_agg_unseen)
  from False show ?thesis
    unfolding z
    using dict_init_tabulate[of "\<lambda>k. date_agg k xs" "first_seen (map date xs)" "date x"]
    by (simp add: first_seen_snoc)
qed

lemma trend_step_tabulate:
  "trend_step (tabulate_dict (\<lambda>k. date_agg k xs) (first_seen (map date xs))) x =
     Inr (tabulate_dict (\<lambda>k. date_agg k (xs @ [x])) (first_seen (map date (xs @ [x]))))"
proof (cases "nullish (forecastQuantity x) 0 > 0 \<and> nullish (forecastHours x) 0 > 0")
  case True
  then have nz: "nullish (forecastQuantity x) 0 \<noteq> 0" by auto
  have "trend_step (tabulate_dict (\<lambda>k. date_agg k xs) (first_seen (map date xs))) x =
      Inr (tabulate_dict (\<lambda>k. if k = date x then
        (date_agg k xs)
       \<lparr> bd_totalForecast := bd_totalForecast (date_agg k xs) + nullish (forecastQuantity x) 0,
         bd_totalActual := bd_totalActual (date_agg k xs) + nullish (actualQuantity x) 0,
         bd_forecastHours := bd_forecastHours (date_agg k xs) + nullish (forecastHours x) 0,
         bd_actualHours := bd_actualHours (date_agg k xs) + nullish (actualHours x) 0,
         weightedPFSum := weightedPFSum (date_agg k xs) +
            nullish (actualQuantity x) 0 / nullish (forecastQuantity x) 0
              * nullish (forecastHours x) 0,
         weightSum := weightSum (date_agg k xs) + nullish (forecastHours x) 0 \<rparr>
        else date_agg k xs) (first_seen (map date (xs @ [x]))))"
    unfolding trend_step_def Let_def trend_byDate1 dict_update_tabulate
    using True nz
    by (auto simp: js_div_def intro!: tabulate_dict_cong)
  also have "\<dots> = Inr (tabulate_dict (\<lambda>k. date_agg k (xs @ [x])) (first_seen (map date (xs @ [x]))))"
    using True by (auto intro!: tabulate_dict_cong simp: date_agg_same_weighted date_agg_other)
  finally show ?thesis .
next
  case False
  have "trend_step (tabulate_dict (\<lambda>k. date_agg k xs) (first_seen (map date xs))) x =
      Inr (tabulate_dict (\<lambda>k. if k = date x then
        (date_agg k xs)
       \<lparr> bd_totalForecast := bd_totalForecast (date_agg k xs) + nullish (forecastQuantity x) 0,
         bd_totalActual := bd_totalActual (date_agg k xs) + nullish (actualQuantity x) 0,
         bd_forecastHours := bd_forecastHours (date_agg k xs) + nullish (forecastHours x) 0,
         bd_actualHours := bd_actualHours (date_agg k xs) + nullish (actualHours x) 0 \<rparr>
        else date_agg k xs) (first_seen (map date (xs @ [x]))))"
    unfolding trend_step_def Let_def trend_byDate1 dict_update_tabulate
    using False
    by (auto intro!: tabulate_dict_cong)
  also have "\<dots> = Inr (tabulate_dict (\<lambda>k. date_agg k (xs @ [x])) (first_seen (map date (xs @ [x]))))"
    using False by (auto intro!: tabulate_dict_cong simp: date_agg_same_unweighted date_agg_other)
  finally show ?thesis .
qed

lemma trend_loop:
  "foldl_err trend_step [] xs =
     Inr (tabulate_dict (\<lambda>k. date_agg k xs) (first_seen (map date xs)))"
proof (induction xs rule: rev_induct)
  case Nil
  show ?case by simp
next
  case (snoc x xs)
  show ?case
    by (simp only: foldl_err_snoc snoc.IH bind_err_Inr trend_step_tabulate)
qed

lemma sum_field_weights_nonneg: "0 \<le> sum_field forecastHours (weighted_entries k es)"
  unfolding sum_field_def weighted_entries_def
  by (rule sum_list_nonneg) (auto split: option.splits)

lemma trend_factor_of_agg:
  "(if weightSum (date_agg k es) > 0
    then weightedPFSum (date_agg k es) / weightSum (date_agg k es) else 0) = weighted_pf k es"
  using sum_field_weights_nonneg[of k es]
  by (auto simp: date_agg_def weighted_pf_def Let_def)

lemma trend_points:
  "map_err trend_point (tabulate_dict (\<lambda>k. date_agg k es) ks) =
     Inr (map (\<lambda>k. \<lparr> tp_date = k,
                      tp_productionFactor = weighted_pf k es,
                      tp_forecastHours = bd_forecastHours (date_agg k es),
                      tp_actualHours = bd_actualHours (date_agg k es),
                      tp_totalForecast = bd_totalForecast (date_agg k es),
                      tp_totalActual = bd_totalActual (date_agg k es) \<rparr>) ks)"
proof -
  have "map_err trend_point (tabulate_dict (\<lambda>k. date_agg k es) ks) =
      Inr (map (\<lambda>kv. \<lparr> tp_date = fst kv,
                      tp_productionFactor = weighted_pf (fst kv) es,
                      tp_forecastHours = bd_forecastHours (snd kv),
                      tp_actualHours = bd_actualHours (snd kv),
                      tp_totalForecast = bd_totalForecast (snd kv),
                      tp_totalActual = bd_totalActual (snd kv) \<rparr>)
            (tabulate_dict (\<lambda>k. date_agg k es) ks))"
    by (rule map_err_pure)
      (auto simp: trend_point_def guarded_div_total tabulate_dict_def trend_factor_of_agg)
  then show ?thesis by (simp add: tabulate_dict_def o_def)
qed

lemma getTrendData_granted:
  assumes "checkProjectAccess d uid pid"
  shows "getTrendData d (Some uid) pid s e =
     Inr (sort_key tp_date
       (map (\<lambda>k. \<lparr> tp_date = k,
                   tp_productionFactor =
                     weighted_pf k (filter (in_range s e) (collect_by_project d pid)),
                   tp_forecastHours =
                     bd_forecastHours (date_agg k (filter (in_range s e) (collect_by_project d pid))),
                   tp_actualHours =
                     bd_actualHours (date_agg k (filter (in_range s e) (collect_by_project d pid))),
                   tp_totalForecast =
                     bd_totalForecast (date_agg k (filter (in_range s e) (collect_by_project d pid))),
                   tp_totalActual =
                     bd_totalActual (date_agg k (filter (in_range s e) (collect_by_project d pid))) \<rparr>)
          (first_seen (map date (filter (in_range s e) (collect_by_project d pid))))))"
  using assms
  by (simp add: getTrendData_def Let_def trend_loop trend_points)

lemma getTrendData_refused:
  "getTrendData d None pid s e = Inr []"
  "\<not> checkProjectAccess d uid pid \<Longrightarrow> getTrendData d (Some uid) pid s e = Inr []"
  by (simp_all add: getTrendData_def)

lemma getTrendData_series:
  assumes "checkProjectAccess d uid pid"
  shows "\<exists>points. getTrendData d (Some uid) pid s e = Inr points \<and>
     sorted (map tp_date points) \<and> distinct (map tp_date points) \<and>
     set (map tp_date points) = date ` set (filter (in_range s e) (collect_by_project d pid)) \<and>
     (\<forall>p\<in>set points. tp_productionFactor p =
         weighted_pf (tp_date p) (filter (in_range s e) (collect_by_project d pid)))"
proof -
  let ?es = "filter (in_range s e) (collect_by_project d pid)"
  let ?mk = "\<lambda>k. \<lparr> tp_date = k,
                   tp_productionFactor = weighted_pf k ?es,
                   tp_forecastHours = bd_forecastHours (date_agg k ?es),
                   tp_actualHours = bd_actualHours (date_agg k ?es),
                   tp_totalForecast = bd_totalForecast (date_agg k ?es),
                   tp_totalActual = bd_totalActual (date_agg k ?es) \<rparr>"
  let ?points = "sort_key tp_date (map ?mk (first_seen (map date ?es)))"
  have r: "getTrendData d (Some uid) pid s e = Inr ?points"
    by (rule getTrendData_granted[OF assms])
  have dates: "map tp_date ?points = sort (first_seen (map date ?es))"
    by (simp add: map_sort_key o_def)
  have "sorted (map tp_date ?points)" unfolding dates by simp
  moreover have "distinct (map tp_date ?points)" unfolding dates by simp
  moreover have "set (map tp_date ?points) = date ` set ?es" unfolding dates by simp
  moreover have "\<forall>p\<in>set ?points. tp_productionFactor p = weighted_pf (tp_date p) ?es"
    by auto
  ultimately show ?thesis using r by blast
qed





section \<open>Properties of the ranker\<close>

lemma foreman_ratios_total:
  "foreman_ratios data = Inr
     ((if fm_totalActualHours data > 0
       then fm_totalActualQuantity data / fm_totalActualHours data else 0),
      (if fm_totalForecastQuantity data > 0
       then fm_totalActualQuantity data / fm_totalForecastQuantity data else 0),
      (if fm_totalForecastQuantity data > 0
       then (fm_totalActualQuantity data - fm_totalForecastQuantity data)
              / fm_totalForecastQuantity data * 100
       else 0))"
  by (simp add: foreman_ratios_def guarded_div_total js_div_def)

lemma scope_row_total: "\<exists>r. scope_row d kv = Inr r \<and> rounded_ratios r"
  by (cases kv) (simp add: scope_row_def foreman_ratios_total rounded_ratios_def)

lemma project_row_total: "\<exists>r. project_row d kv = Inr r \<and> rounded_ratios r"
  by (cases kv) (simp add: project_row_def foreman_ratios_total rounded_ratios_def)

lemma map_err_all:
  assumes "\<And>x. \<exists>y. f x = Inr y \<and> P y"
  shows "\<exists>ys. map_err f xs = Inr ys \<and> (\<forall>y\<in>set ys. P y)"
proof (induction xs)
  case Nil
  show ?case by simp
next
  case (Cons x xs)
  from assms obtain y where "f x = Inr y" "P y" by blast
  moreover from Cons.IH obtain ys where "map_err f xs = Inr ys" "\<forall>y\<in>set ys. P y" by blast
  ultimately show ?case by simp
qed

lemma add_rank_length [simp]: "length (add_rank xs) = length xs"
  by (simp add: add_rank_def)







lemma getProjectLeaderboard_shape:
  "\<exists>rows. getProjectLeaderboard d auth pid sd ed = Inr (add_rank (sort_by_factor rows)) \<and>
          (\<forall>r\<in>set rows. rounded_ratios r)"
proof (cases "\<exists>uid. auth = Some uid \<and> checkProjectAccess d uid pid")
  case True
  then obtain uid where u: "auth = Some uid" "checkProjectAccess d uid pid" by blast
  from map_err_all[of "project_row d" rounded_ratios, OF project_row_total]
  obtain rows where "map_err (project_row d)
      (foldl project_foreman_step [] (date_range_filter sd ed (collect_by_project d pid))) = Inr rows"
    and "\<forall>r\<in>set rows. rounded_ratios r"
    by blast
  with u show ?thesis
    by (auto simp: getProjectLeaderboard_def Let_def)
next
  case False
  then have "getProjectLeaderboard d auth pid sd ed = Inr []"
    by (cases auth) (auto simp: getProjectLeaderboard_def)
  then have "getProjectLeaderboard d auth pid sd ed = Inr (add_rank (sort_by_factor []))"
    by (simp add: add_rank_def sort_by_factor_def)
  then show ?thesis by (intro exI[of _ "[]"]) simp
qed

lemma getScopeLeaderboard_shape:
  "\<exists>rows. getScopeLeaderboard d auth sid sd ed = Inr (add_rank (sort_by_factor rows)) \<and>
          (\<forall>r\<in>set rows. rounded_ratios r)"
proof (cases "\<exists>uid sc. auth = Some uid \<and> get_scope d sid = Some sc
                \<and> checkProjectAccess d uid (sc_projectId sc)")
  case True
  then obtain uid sc where u: "auth = Some uid" "get_scope d sid = Some sc"
    "checkProjectAccess d uid (sc_projectId sc)" by blast
  from map_err_all[of "scope_row d" rounded_ratios, OF scope_row_total]
  obtain rows where "map_err (scope_row d)
      (foldl scope_foreman_step [] (date_range_filter sd ed (collect_by_scope d sid))) = Inr rows"
    and "\<forall>r\<in>set rows. rounded_ratios r"
    by blast
  with u show ?thesis
    by (auto simp: getScopeLeaderboard_def Let_def)
next
  case False
  then have "getScopeLeaderboard d auth sid sd ed = Inr []"
    by (cases auth; cases "get_scope d sid") (auto simp: getScopeLeaderboard_def)
  then have "getScopeLeaderboard d auth sid sd ed = Inr (add_rank (sort_by_factor []))"
    by (simp add: add_rank_def sort_by_factor_def)
  then show ?thesis by (intro exI[of _ "[]"]) simp
qed

lemma getProjectLeaderboard_refused:
  "getProjectLeaderboard d None pid sd ed = Inr []"
  "\<not> checkProjectAccess d uid pid \<Longrightarrow> getProjectLeaderboard d (Some uid) pid sd ed = Inr []"
  by (simp_all add: getProjectLeaderboard_def)

lemma getScopeLeaderboard_refused:
  "getScopeLeaderboard d None sid sd ed = Inr []"
  "get_scope d sid = None \<Longrightarrow> getScopeLeaderboard d auth sid sd ed = Inr []"
  "get_scope d sid = Some sc \<Longrightarrow> \<not> checkProjectAccess d uid (sc_projectId sc)
     \<Longrightarrow> getScopeLeaderboard d (Some uid) sid sd ed = Inr []"
  by (simp_all add: getScopeLeaderboard_def split: option.splits)






subsection \<open>Rounding, and the breakdowns\<close>

lemma Math_round_zero [simp]: "Math_round 0 = 0"
  by (simp add: Math_round_def floor_eq_iff)



lemma breakdown_ratios_total:
  "breakdown_ratios data = Inr
     ((if fm_totalForecastQuantity data > 0
       then fm_totalActualQuantity data / fm_totalForecastQuantity data else 0),
      (if fm_totalForecastQuantity data > 0
       then (fm_totalActualQuantity data - fm_totalForecastQuantity data)
              / fm_totalForecastQuantity data * 100
       else 0))"
  by (simp add: breakdown_ratios_def guarded_div_total js_div_def)

lemma scope_breakdown_row_total:
  "\<exists>r. scope_breakdown_row byScope sc = Inr r \<and> rounded_breakdown r"
  by (simp add: scope_breakdown_row_def Let_def breakdown_ratios_total rounded_breakdown_def)

lemma activity_breakdown_row_total:
  "\<exists>r. activity_breakdown_row byActivity act = Inr r \<and> rounded_breakdown r"
  by (simp add: activity_breakdown_row_def Let_def breakdown_ratios_total rounded_breakdown_def)

lemma sort_breakdown_set [simp]: "set (sort_breakdown rows) = set rows"
  by (simp add: sort_breakdown_def)

lemma getScopeBreakdown_refused:
  "getScopeBreakdown d None pid sd ed = Inr []"
  "\<not> checkProjectAccess d uid pid \<Longrightarrow> getScopeBreakdown d (Some uid) pid sd ed = Inr []"
  by (simp_all add: getScopeBreakdown_def)

lemma getActivityBreakdown_refused:
  "getActivityBreakdown d None sid sd ed = Inr []"
  "get_scope d sid = None \<Longrightarrow> getActivityBreakdown d auth sid sd ed = Inr []"
  "get_scope d sid = Some sc \<Longrightarrow> \<not> checkProjectAccess d uid (sc_projectId sc)
     \<Longrightarrow> getActivityBreakdown d (Some uid) sid sd ed = Inr []"
  by (simp_all add: getActivityBreakdown_def split: option.splits)

lemma getAllProjectsTrendData_refused:
  "getAllProjectsTrendData d None s e = Inr []"
  "\<not> isControlCenter d uid \<Longrightarrow> getAllProjectsTrendData d (Some uid) s e = Inr []"
  by (simp_all add: getAllProjectsTrendData_def)

lemma getAllProjectsTrendData_total: "\<exists>r. getAllProjectsTrendData d auth s e = Inr r"
  by (cases auth) (simp_all add: getAllProjectsTrendData_def Let_def)

lemma getScopeBreakdown_shape:
  "\<exists>rows. getScopeBreakdown d auth pid sd ed = Inr rows \<and> (\<forall>r\<in>set rows. rounded_breakdown r)"
proof (cases "\<exists>uid. auth = Some uid \<and> checkProjectAccess d uid pid")
  case True
  then obtain uid where u: "auth = Some uid" "checkProjectAccess d uid pid" by blast
  let ?by = "foldl scope_group_step [] (date_range_filter sd ed (collect_by_project d pid))"
  from map_err_all[of "scope_breakdown_row ?by" rounded_breakdown,
      OF scope_breakdown_row_total]
  obtain rows where "map_err (scope_breakdown_row ?by)
      (filter (\<lambda>s. sc_projectId s = pid) (scopes d)) = Inr rows"
    and "\<forall>r\<in>set rows. rounded_breakdown r"
    by blast
  with u show ?thesis
    by (auto simp: getScopeBreakdown_def Let_def)
next
  case False
  then have "getScopeBreakdown d auth pid sd ed = Inr []"
    by (cases auth) (auto simp: getScopeBreakdown_def)
  then show ?thesis by simp
qed

lemma getActivityBreakdown_shape:
  "\<exists>rows. getActivityBreakdown d auth sid sd ed = Inr rows \<and> (\<forall>r\<in>set rows. rounded_breakdown r)"
proof (cases "\<exists>uid sc. auth = Some uid \<and> get_scope d sid = Some sc
                \<and> checkProjectAccess d uid (sc_projectId sc)")
  case True
  then obtain uid sc where u: "auth = Some uid" "get_scope d sid = Some sc"
    "checkProjectAccess d uid (sc_projectId sc)" by blast
  let ?by = "foldl activity_group_step [] (date_range_filter sd ed (collect_by_scope d sid))"
  from map_err_all[of "activity_breakdown_row ?by" rounded_breakdown,
      OF activity_breakdown_row_total]
  obtain rows where "map_err (activity_breakdown_row ?by)
      (filter (\<lambda>a. ac_scopeId a = sid) (activities d)) = Inr rows"
    and "\<forall>r\<in>set rows. rounded_breakdown r"
    by blast
  with u show ?thesis
    by (auto simp: getActivityBreakdown_def Let_def)
next
  case False
  then have "getActivityBreakdown d auth sid sd ed = Inr []"
    by (cases auth; cases "get_scope d sid") (auto simp: getActivityBreakdown_def)
  then show ?thesis by simp
qed

lemma getTrendData_cases:
  "\<exists>points. getTrendData d auth pid s e = Inr points \<and>
     (\<forall>p\<in>set points. tp_productionFactor p =
         weighted_pf (tp_date p) (filter (in_range s e) (collect_by_project d pid)))"
proof (cases "\<exists>uid. auth = Some uid \<and> checkProjectAccess d uid pid")
  case True
  then obtain uid where "auth = Some uid" "checkProjectAccess d uid pid" by blast
  with getTrendData_series[of d uid pid s e] show ?thesis by blast
next
  case False
  then have "getTrendData d auth pid s e = Inr []"
    by (cases auth) (auto simp: getTrendData_def)
  then show ?thesis by simp
qed










lemma other_queries_refused:
  "getAllScopeKPIs d None pid = Inr []"
  "\<not> checkProjectAccess d uid pid \<Longrightarrow> getAllScopeKPIs d (Some uid) pid = Inr []"
  "getUserStats d None pid target sd ed = Inr None"
  "\<not> checkProjectAccess d uid pid \<Longrightarrow> getUserStats d (Some uid) pid target sd ed = Inr None"
  "getProjectsSummary d None = Inr []"
  by (simp_all add: getAllScopeKPIs_def getUserStats_def getProjectsSummary_def)

section \<open>Read queries without access\<close>

lemma manager_without_assignment:
  assumes "first_profile d uid = Some profile" "up_role profile = construction_manager"
    and "\<not> (\<exists>a\<in>set (projectAssignments d). pa_userId a = uid \<and> pa_projectId a = pid)"
  shows "\<not> checkProjectAccess d uid pid"
proof -
  from assms(3) have "find (\<lambda>a. pa_userId a = uid \<and> pa_projectId a = pid) (projectAssignments d) = None"
    by (simp add: find_None_iff)
  with assms(1,2) show ?thesis
    by (simp add: checkProjectAccess_def first_profile_def)
qed

lemma read_queries_return:
  "\<exists>r. getTrendData d auth pid s e = Inr r"
  "\<exists>r. getProjectLeaderboard d auth pid sd ed = Inr r"
  "\<exists>r. getScopeLeaderboard d auth sid sd ed = Inr r"
  "\<exists>r. getScopeBreakdown d auth pid sd ed = Inr r"
  "\<exists>r. getActivityBreakdown d auth sid sd ed = Inr r"
  using getTrendData_cases[of d auth pid s e] getProjectLeaderboard_shape[of d auth pid sd ed]
    getScopeLeaderboard_shape[of d auth sid sd ed] getScopeBreakdown_shape[of d auth pid sd ed]
    getActivityBreakdown_shape[of d auth sid sd ed]
  by blast+

text \<open>
  When there is no authenticated caller, or the gate denies the caller the project
  (of the scope, of the activity) a query is about, the KPI, trend, leaderboard and
  breakdown queries return \<open>null\<close> or the empty list; in particular \<open>getProjectKPIs\<close>
  returns \<open>null\<close> for a construction manager with no assignment to the project. None of
  these queries ends in an error, in any case.
\<close>

theorem reads_degrade_to_empty:
  "((auth = None \<or> (\<exists>uid. auth = Some uid \<and> \<not> checkProjectAccess d uid pid)) \<longrightarrow>
      getProjectKPIs d auth pid = Inr None \<and> getTrendData d auth pid s e = Inr [] \<and>
      getProjectLeaderboard d auth pid sd ed = Inr [] \<and>
      getScopeBreakdown d auth pid sd ed = Inr []) \<and>
   ((auth = None \<or> (\<exists>uid sc. auth = Some uid \<and> get_scope d sid = Some sc \<and>
                      \<not> checkProjectAccess d uid (sc_projectId sc))) \<longrightarrow>
      getScopeKPIs d auth sid = Inr None \<and> getScopeLeaderboard d auth sid sd ed = Inr [] \<and>
      getActivityBreakdown d auth sid sd ed = Inr []) \<and>
   ((auth = None \<or> (\<exists>uid act. auth = Some uid \<and> get_activity d aid = Some act \<and>
                      \<not> checkProjectAccess d uid (ac_projectId act))) \<longrightarrow>
      getActivityKPIs d auth aid = Inr None) \<and>
   (auth = None \<longrightarrow>
      getAllProjectsKPIs d auth = Inr None \<and> getAllProjectsTrendData d auth s e = Inr []) \<and>
   (\<forall>uid profile.
      first_profile d uid = Some profile \<and> up_role profile = construction_manager \<and>
      \<not> (\<exists>a\<in>set (projectAssignments d). pa_userId a = uid \<and> pa_projectId a = pid)
        \<longrightarrow> getProjectKPIs d (Some uid) pid = Inr None) \<and>
   (\<exists>r. getProjectKPIs d auth pid = Inr r) \<and> (\<exists>r. getScopeKPIs d auth sid = Inr r) \<and>
   (\<exists>r. getActivityKPIs d auth aid = Inr r) \<and> (\<exists>r. getAllProjectsKPIs d auth = Inr r) \<and>
   (\<exists>r. getTrendData d auth pid s e = Inr r) \<and>
   (\<exists>r. getAllProjectsTrendData d auth s e = Inr r) \<and>
   (\<exists>r. getProjectLeaderboard d auth pid sd ed = Inr r) \<and>
   (\<exists>r. getScopeLeaderboard d auth sid sd ed = Inr r) \<and>
   (\<exists>r. getScopeBreakdown d auth pid sd ed = Inr r) \<and>
   (\<exists>r. getActivityBreakdown d auth sid sd ed = Inr r)"
proof -
  have c1: "(auth = None \<or> (\<exists>uid. auth = Some uid \<and> \<not> checkProjectAccess d uid pid)) \<longrightarrow>
      getProjectKPIs d auth pid = Inr None \<and> getTrendData d auth pid s e = Inr [] \<and>
      getProjectLeaderboard d auth pid sd ed = Inr [] \<and>
      getScopeBreakdown d auth pid sd ed = Inr []"
    by (auto simp: getProjectKPIs_refused getTrendData_refused getProjectLeaderboard_refused
        getScopeBreakdown_refused)
  have c2: "(auth = None \<or> (\<exists>uid sc. auth = Some uid \<and> get_scope d sid = Some sc \<and>
                      \<not> checkProjectAccess d uid (sc_projectId sc))) \<longrightarrow>
      getScopeKPIs d auth sid = Inr None \<and> getScopeLeaderboard d auth sid sd ed = Inr [] \<and>
      getActivityBreakdown d auth sid sd ed = Inr []"
    by (auto simp: getScopeKPIs_refused getScopeLeaderboard_refused getActivityBreakdown_refused)
  have c3: "(auth = None \<or> (\<exists>uid act. auth = Some uid \<and> get_activity d aid = Some act \<and>
                      \<not> checkProjectAccess d uid (ac_projectId act))) \<longrightarrow>
      getActivityKPIs d auth aid = Inr None"
    by (auto simp: getActivityKPIs_refused)
  have c4: "auth = None \<longrightarrow>
      getAllProjectsKPIs d auth = Inr None \<and> getAllProjectsTrendData d auth s e = Inr []"
    by (simp add: getAllProjectsKPIs_refused getAllProjectsTrendData_refused)
  have c5: "\<forall>uid profile.
      first_profile d uid = Some profile \<and> up_role profile = construction_manager \<and>
      \<not> (\<exists>a\<in>set (projectAssignments d). pa_userId a = uid \<and> pa_projectId a = pid)
        \<longrightarrow> getProjectKPIs d (Some uid) pid = Inr None"
  proof (intro allI impI)
    fix uid profile
    assume "first_profile d uid = Some profile \<and> up_role profile = construction_manager \<and>
      \<not> (\<exists>a\<in>set (projectAssignments d). pa_userId a = uid \<and> pa_projectId a = pid)"
    then have "\<not> checkProjectAccess d uid pid"
      using manager_without_assignment[of d uid profile pid] by blast
    then show "getProjectKPIs d (Some uid) pid = Inr None"
      by (rule getProjectKPIs_refused(2))
  qed
  note k = kpi_queries_finite(1)[of d auth pid] kpi_queries_finite(2)[of d auth sid]
    kpi_queries_finite(3)[of d auth aid] kpi_queries_finite(4)[of d auth]
  note q = read_queries_return(1)[of d auth pid s e] getAllProjectsTrendData_total[of d auth s e]
    read_queries_return(2)[of d auth pid sd ed] read_queries_return(3)[of d auth sid sd ed]
    read_queries_return(4)[of d auth pid sd ed] read_queries_return(5)[of d auth sid sd ed]
  show ?thesis
    using c1 c2 c3 c4 c5 k q by (intro conjI) assumption+
qed


lemma trend_db_refusals:
  "\<not> checkProjectAccess trend_db ''u:max'' ''P2''"
  "get_scope trend_db ''S2'' = Some \<lparr> sc_id = ''S2'', sc_projectId = ''P2'', sc_name = ''Civil'' \<rparr>"
  "get_activity trend_db ''A2'' =
     Some \<lparr> ac_id = ''A2'', ac_scopeId = ''S2'', ac_projectId = ''P2'',
            ac_name = ''Excavation'', ac_unit = ''cubic yards'' \<rparr>"
  "first_profile trend_db ''u:max'' =
     Some \<lparr> up_userId = ''u:max'', up_name = ''Max'', up_role = construction_manager \<rparr>"
  "\<not> (\<exists>a\<in>set (projectAssignments trend_db). pa_userId a = ''u:max'' \<and> pa_projectId a = ''P2'')"
  by (simp_all add: checkProjectAccess_def get_scope_def get_activity_def first_profile_def
      trend_db_def demo_db_def)

theorem reads_degrade_to_empty_witness:
  "getProjectKPIs trend_db (Some ''u:max'') ''P2'' = Inr None \<and>
   getTrendData trend_db (Some ''u:max'') ''P2'' ''2024-06-01'' ''2024-06-30'' = Inr [] \<and>
   getProjectLeaderboard trend_db (Some ''u:max'') ''P2'' None None = Inr [] \<and>
   getScopeBreakdown trend_db (Some ''u:max'') ''P2'' None None = Inr [] \<and>
   getScopeKPIs trend_db (Some ''u:max'') ''S2'' = Inr None \<and>
   getScopeLeaderboard trend_db (Some ''u:max'') ''S2'' None None = Inr [] \<and>
   getActivityBreakdown trend_db (Some ''u:max'') ''S2'' None None = Inr [] \<and>
   getActivityKPIs trend_db (Some ''u:max'') ''A2'' = Inr None \<and>
   getAllProjectsKPIs trend_db None = Inr None \<and>
   getAllProjectsTrendData trend_db None ''2024-06-01'' ''2024-06-30'' = Inr []"
proof -
  note denied = reads_degrade_to_empty[where d = trend_db and auth = "Some ''u:max''"
      and pid = "''P2''" and sid = "''S2''" and aid = "''A2''"
      and s = "''2024-06-01''" and e = "''2024-06-30''" and sd = None and ed = None]
  note anonymous = reads_degrade_to_empty[where d = trend_db and auth = None
      and pid = "''P2''" and sid = "''S2''" and aid = "''A2''"
      and s = "''2024-06-01''" and e = "''2024-06-30''" and sd = None and ed = None]
  have p: "\<exists>uid. Some ''u:max'' = Some uid \<and> \<not> checkProjectAccess trend_db uid ''P2''"
    using trend_db_refusals(1) by simp
  have sc: "\<exists>uid sc. Some ''u:max'' = Some uid \<and> get_scope trend_db ''S2'' = Some sc \<and>
      \<not> checkProjectAccess trend_db uid (sc_projectId sc)"
    using trend_db_refusals(1,2) by simp
  have ac: "\<exists>uid act. Some ''u:max'' = Some uid \<and> get_activity trend_db ''A2'' = Some act \<and>
      \<not> checkProjectAccess trend_db uid (ac_projectId act)"
    using trend_db_refusals(1,3) by simp
  note d1 = denied[THEN conjunct1, THEN mp, OF disjI2, OF p]
  note d2 = denied[THEN conjunct2, THEN conjunct1, THEN mp, OF disjI2, OF sc]
  note d3 = denied[THEN conjunct2, THEN conjunct2, THEN conjunct1, THEN mp, OF disjI2, OF ac]
  note d4 = anonymous[THEN conjunct2, THEN conjunct2, THEN conjunct2, THEN conjunct1, THEN mp,
      OF refl]
  from d1 have r1: "getProjectKPIs trend_db (Some ''u:max'') ''P2'' = Inr None"
    and r2: "getTrendData trend_db (Some ''u:max'') ''P2'' ''2024-06-01'' ''2024-06-30'' = Inr []"
    and r3: "getProjectLeaderboard trend_db (Some ''u:max'') ''P2'' None None = Inr []"
    and r4: "getScopeBreakdown trend_db (Some ''u:max'') ''P2'' None None = Inr []"
    by blast+
  from d2 have r5: "getScopeKPIs trend_db (Some ''u:max'') ''S2'' = Inr None"
    and r6: "getScopeLeaderboard trend_db (Some ''u:max'') ''S2'' None None = Inr []"
    and r7: "getActivityBreakdown trend_db (Some ''u:max'') ''S2'' None None = Inr []"
    by blast+
  from d4 have r9: "getAllProjectsKPIs trend_db None = Inr None"
    and r10: "getAllProjectsTrendData trend_db None ''2024-06-01'' ''2024-06-30'' = Inr []"
    by blast+
  show ?thesis
    using r1 r2 r3 r4 r5 r6 r7 d3 r9 r10 by (intro conjI) assumption+
qed

text \<open>
  C9, at a concrete store. Carol has a profile. With no authenticated caller
  \<open>getCurrentProfile\<close> returns \<open>null\<close>, and \<open>getByUserId\<close> returns Carol's profile.
\<close>

theorem getByUserId_answers_unauthenticated:
  "getCurrentProfile demo_db None = Inr None \<and>
   getByUserId demo_db None ''u:carol'' =
     Inr (Some \<lparr> up_userId = ''u:carol'', up_name = ''Carol'', up_role = control_center \<rparr>)"
  by (simp add: getCurrentProfile_def getByUserId_def demo_db_def)

section \<open>Division by zero and rounding\<close>










end
